theory Spec2Isabelle
  imports Complex_Main "HOL-Library.Sublist"
begin

section \<open>JavaScript numbers and template strings\<close>

text \<open>
  The numbers of JavaScript are IEEE 754 doubles.  A double is modelled by the rational
  it denotes, and the result of an arithmetic operation on doubles is the exact result
  rounded to the nearest double, a tie going to the even mantissa: \<open>double\<close>, with 53
  bits of mantissa and the smallest exponent of the subnormal numbers.  The operations
  modelled stay far from the largest double, so no infinity arises.  Operations on
  integers that the doubles hold exactly (counts, differences of clock readings) are
  written without the rounding.  In the load generator the load times, their sum and
  their mean are the exact ones, from which the doubles differ in the last digits.
\<close>

fun bitLength :: "nat \<Rightarrow> nat" where
  "bitLength n = (if n = 0 then 0 else Suc (bitLength (n div 2)))"

declare bitLength.simps [simp del]

text \<open>The exponent of the leading bit of a positive number.\<close>

definition exponent :: "rat \<Rightarrow> int" where
  "exponent x =
    (if 1 \<le> x then int (bitLength (nat \<lfloor>x\<rfloor>)) - 1
     else - int (bitLength (nat (\<lceil>1 / x\<rceil> - 1))))"

definition roundToEven :: "rat \<Rightarrow> int" where
  "roundToEven y =
    (let f = \<lfloor>y\<rfloor>; d = y - of_int f
     in if d < 1 / 2 then f else if d > 1 / 2 then f + 1 else if even f then f else f + 1)"

definition double :: "rat \<Rightarrow> rat" where
  "double x =
    (if x = 0 then 0
     else (let e = max (exponent \<bar>x\<bar> - 52) (- 1074)
           in sgn x * of_int (roundToEven (\<bar>x\<bar> / 2 powi e)) * 2 powi e))"

text \<open>
  \<^verbatim>\<open>x.toFixed(2)\<close> returns a string with exactly two decimals; such a string is
  represented by the integer number of hundredths it denotes (\<^verbatim>\<open>"4.50"\<close> is \<open>450\<close>).
  \<^verbatim>\<open>toFixed\<close> works on the exact value of the double: it picks the nearest multiple of
  1/100 and, of two equally near ones, the larger, after taking the sign off.
  \<^verbatim>\<open>parseFloat\<close> of such a string is the double nearest to the number it denotes.
\<close>

type_synonym fixed2 = int

definition toFixed2 :: "rat \<Rightarrow> fixed2" where
  "toFixed2 x = (if x < 0 then - \<lfloor>- x * 100 + 1 / 2\<rfloor> else \<lfloor>x * 100 + 1 / 2\<rfloor>)"

definition parseFloat :: "fixed2 \<Rightarrow> rat" where
  "parseFloat s = double (of_int s / 100)"

definition Math_round :: "rat \<Rightarrow> int" where
  "Math_round x = \<lfloor>x + 1 / 2\<rfloor>"

text \<open>
  A template literal is kept as the list of its parts: the literal text and the
  interpolated values, in order.
\<close>

datatype piece = Lit string | Num rat | Fixed fixed2

section \<open>The load generator: \<^verbatim>\<open>PuppeteerPerformanceTester.runLoadTest\<close>\<close>

text \<open>
  What one call of \<^verbatim>\<open>singleUserLoadTest\<close> meets: the page answered (the two readings of
  \<^verbatim>\<open>performance.now()\<close> around \<^verbatim>\<open>page.goto\<close>, in milliseconds, and the HTTP status);
  or the navigation threw inside the \<^verbatim>\<open>try\<close> block; or the browser could not
  be launched, the page not opened or not closed, which rejects the promise.  The
  string is the \<^verbatim>\<open>message\<close> of the error.
\<close>

datatype attempt =
  Responded rat rat int
| NavigationError string
| BrowserError string

record outcome =
  loadTime :: "rat option"
  statusCode :: "int option"
  success :: "bool option"
  error :: "string option"

datatype 'a settled = Fulfilled 'a | Rejected string

fun singleUserLoadTest :: "attempt \<Rightarrow> outcome settled" where
  "singleUserLoadTest (Responded startTime endTime code) =
     Fulfilled \<lparr>loadTime = Some ((endTime - startTime) / 1000),
                statusCode = Some code,
                success = Some (code < 400),
                error = None\<rparr>"
| "singleUserLoadTest (NavigationError m) =
     Fulfilled \<lparr>loadTime = None, statusCode = None, success = Some False, error = Some m\<rparr>"
| "singleUserLoadTest (BrowserError m) = Rejected m"

text \<open>
  The outside of a load test: the successive readings of \<^verbatim>\<open>Date.now()\<close> (reading 0 is
  \<^verbatim>\<open>startTime\<close>, reading \<open>k + 1\<close> the one of the loop test before batch \<open>k\<close>), and what
  navigation \<open>i\<close> of batch \<open>k\<close> meets.
\<close>

record loadEnv =
  clock :: "nat \<Rightarrow> int"
  navigate :: "nat \<Rightarrow> nat \<Rightarrow> attempt"

text \<open>JavaScript truthiness of an optional string and of an optional number.\<close>

definition truthyString :: "string option \<Rightarrow> bool" where
  "truthyString v = (case v of None \<Rightarrow> False | Some s \<Rightarrow> s \<noteq> [])"

definition truthyNumber :: "rat option \<Rightarrow> bool" where
  "truthyNumber v = (case v of None \<Rightarrow> False | Some t \<Rightarrow> t \<noteq> 0)"

text \<open>
  The \<^verbatim>\<open>while\<close> loop, which runs as long as the clock says so: \<open>fuel\<close> bounds the number
  of loop tests, and \<open>None\<close> is a loop that has not ended within it.  \<open>k\<close> counts the
  batches done.
\<close>

fun batches ::
    "nat \<Rightarrow> loadEnv \<Rightarrow> int \<Rightarrow> rat \<Rightarrow> int \<Rightarrow> nat \<Rightarrow> outcome list \<Rightarrow> outcome list option" where
  "batches 0 e concurrent duration startTime k results = None"
| "batches (Suc fuel) e concurrent duration startTime k results =
     (if rat_of_int (clock e (Suc k) - startTime) / 1000 < duration then
        (let promises = map (\<lambda>i. singleUserLoadTest (navigate e k i)) [0..<nat concurrent];
             batchResults = promises;
             results = results @
               map (\<lambda>result. case result of
                      Fulfilled v \<Rightarrow> v
                    | Rejected m \<Rightarrow>
                        \<lparr>loadTime = None, statusCode = None, success = None, error = Some m\<rparr>)
                 batchResults
         in batches fuel e concurrent duration startTime (Suc k) results)
      else Some results)"

definition successful :: "outcome list \<Rightarrow> outcome list" where
  "successful results = filter (\<lambda>r. \<not> truthyString (outcome.error r)) results"

definition failed :: "outcome list \<Rightarrow> outcome list" where
  "failed results = filter (\<lambda>r. truthyString (outcome.error r)) results"

definition loadTimes :: "outcome list \<Rightarrow> rat list" where
  "loadTimes results =
    map the (filter truthyNumber (map outcome.loadTime (successful results)))"

record summary =
  totalRequests :: nat
  successfulRequests :: nat
  failedRequests :: nat
  successRate :: "rat option"
  averageLoadTime :: "rat option"
  minLoadTime :: "rat option"
  maxLoadTime :: "rat option"
  errors :: "string option list"

text \<open>
  The analysis after the loop.  \<^verbatim>\<open>successRate\<close> is \<^verbatim>\<open>NaN\<close> (\<open>None\<close>) when nothing was
  recorded; the three load-time fields are \<^verbatim>\<open>null\<close> (\<open>None\<close>) when \<open>loadTimes\<close> is empty.
\<close>

definition analyze :: "outcome list \<Rightarrow> summary" where
  "analyze results =
    \<lparr>totalRequests = length results,
     successfulRequests = length (successful results),
     failedRequests = length (failed results),
     successRate =
       (if length results = 0 then None
        else Some (of_nat (length (successful results)) / of_nat (length results) * 100)),
     averageLoadTime =
       (if length (loadTimes results) > 0
        then Some (foldl (+) (hd (loadTimes results)) (tl (loadTimes results))
                   / of_nat (length (loadTimes results)))
        else None),
     minLoadTime =
       (if length (loadTimes results) > 0
        then Some (foldl min (hd (loadTimes results)) (tl (loadTimes results))) else None),
     maxLoadTime =
       (if length (loadTimes results) > 0
        then Some (foldl max (hd (loadTimes results)) (tl (loadTimes results))) else None),
     errors = map outcome.error (failed results)\<rparr>"

record options =
  concurrent :: "int option"
  duration :: "rat option"

definition recorded :: "nat \<Rightarrow> loadEnv \<Rightarrow> string \<Rightarrow> options \<Rightarrow> outcome list option" where
  "recorded fuel e url opts =
    (let concurrent = (case options.concurrent opts of None \<Rightarrow> 10 | Some c \<Rightarrow> c);
         duration = (case options.duration opts of None \<Rightarrow> 30 | Some d \<Rightarrow> d);
         results = [];
         startTime = clock e 0
     in batches fuel e concurrent duration startTime 0 results)"

definition runLoadTest :: "nat \<Rightarrow> loadEnv \<Rightarrow> string \<Rightarrow> options \<Rightarrow> summary option" where
  "runLoadTest fuel e url opts = map_option analyze (recorded fuel e url opts)"

section \<open>The scoring engine: \<^verbatim>\<open>generateTestResults\<close>\<close>

record loadTestResults =
  totalRequests :: int
  failedRequests :: int
  avgResponseTime :: fixed2
  maxResponseTime :: fixed2

record testData =
  loadTime :: fixed2
  brokenLinks :: "string list"
  mobileScore :: int
  loadTestResults :: loadTestResults

datatype severity = high | medium

record issue =
  severity :: severity
  description :: "piece list"

record report =
  report_url :: string
  timestamp :: int
  overallScore :: int
  loadTime :: fixed2
  speedIndex :: fixed2
  totalRequests :: int
  failedRequests :: int
  mobileScore :: int
  brokenLinks :: "string list"
  issues :: "issue list"
  recommendations :: "string list"

text \<open>
  \<^verbatim>\<open>new Date()\<close> reads the clock; the reading (milliseconds since the epoch, which
  \<^verbatim>\<open>toISOString\<close> prints) is the first argument \<open>now\<close>.
\<close>

definition generateTestResults :: "int \<Rightarrow> string \<Rightarrow> testData \<Rightarrow> report" where
  "generateTestResults now url testData =
    (let loadTime = parseFloat (testData.loadTime testData);
         mobileScore = testData.mobileScore testData;
         failedRequests = loadTestResults.failedRequests (testData.loadTestResults testData);
         overallScore = (100 :: int);
         overallScore =
           (if loadTime > 3 then overallScore - 20
            else if loadTime > 2 then overallScore - 10
            else if loadTime > 1 then overallScore - 5
            else overallScore);
         overallScore =
           (if mobileScore < 80 then overallScore - 15
            else if mobileScore < 90 then overallScore - 5
            else overallScore);
         overallScore = overallScore - failedRequests * 5;
         overallScore = overallScore - int (length (testData.brokenLinks testData)) * 10;
         overallScore = max 0 (min 100 overallScore);
         issues = [];
         recommendations = [];
         (issues, recommendations) =
           (if loadTime > 2 then
              (issues @
                 [\<lparr>severity = (if loadTime > 4 then high else medium),
                   description = [Lit ''Page load time is '', Num loadTime,
                                  Lit ''s, which may impact user experience'']\<rparr>],
               recommendations @
                 [''Optimize images and enable compression to reduce load times''])
            else (issues, recommendations));
         (issues, recommendations) =
           (if mobileScore < 85 then
              (issues @
                 [\<lparr>severity = medium,
                   description = [Lit ''Mobile responsiveness could be improved'']\<rparr>],
               recommendations @
                 [''Ensure responsive design works well on all device sizes''])
            else (issues, recommendations));
         (issues, recommendations) =
           (if length (testData.brokenLinks testData) > 0 then
              (issues @
                 [\<lparr>severity = high,
                   description = [Lit ''Found '',
                                  Num (of_nat (length (testData.brokenLinks testData))),
                                  Lit '' broken links'']\<rparr>],
               recommendations @
                 [''Fix broken links to improve user experience and SEO''])
            else (issues, recommendations));
         (issues, recommendations) =
           (if failedRequests > 0 then
              (issues @
                 [\<lparr>severity = medium,
                   description = [Num (of_int failedRequests),
                                  Lit '' requests failed during load testing'']\<rparr>],
               recommendations @
                 [''Investigate server stability under load''])
            else (issues, recommendations))
     in \<lparr>report_url = url,
         timestamp = now,
         overallScore = Math_round (of_int overallScore),
         loadTime = testData.loadTime testData,
         speedIndex =
           toFixed2 (double (parseFloat (testData.loadTime testData) * double (12 / 10))),
         totalRequests = loadTestResults.totalRequests (testData.loadTestResults testData),
         failedRequests = loadTestResults.failedRequests (testData.loadTestResults testData),
         mobileScore = testData.mobileScore testData,
         brokenLinks = testData.brokenLinks testData,
         issues = issues,
         recommendations = recommendations\<rparr>)"

text \<open>
  The four categories of issue, and the category an issue or a recommendation
  belongs to, read off the fixed text of its string.
\<close>

datatype category = LoadTimeIssue | MobileIssue | BrokenLinksIssue | FailedRequestsIssue

definition issueCategory :: "issue \<Rightarrow> category option" where
  "issueCategory i =
    (case description i of
       [Lit a, Num v, Lit b] \<Rightarrow>
         if a = ''Page load time is '' \<and> b = ''s, which may impact user experience''
         then Some LoadTimeIssue
         else if a = ''Found '' \<and> b = '' broken links'' then Some BrokenLinksIssue
         else None
     | [Lit a] \<Rightarrow>
         if a = ''Mobile responsiveness could be improved'' then Some MobileIssue else None
     | [Num v, Lit b] \<Rightarrow>
         if b = '' requests failed during load testing'' then Some FailedRequestsIssue
         else None
     | _ \<Rightarrow> None)"

definition recommendationFor :: "category \<Rightarrow> string" where
  "recommendationFor c =
    (case c of
       LoadTimeIssue \<Rightarrow> ''Optimize images and enable compression to reduce load times''
     | MobileIssue \<Rightarrow> ''Ensure responsive design works well on all device sizes''
     | BrokenLinksIssue \<Rightarrow> ''Fix broken links to improve user experience and SEO''
     | FailedRequestsIssue \<Rightarrow> ''Investigate server stability under load'')"

section \<open>The route handler: \<^verbatim>\<open>runPerformanceTest\<close> and its probe stages\<close>

text \<open>
  What the handler reads from outside: the successive values of \<^verbatim>\<open>Math.random()\<close>
  (numbers from 0 up to, not including, 1),
  the outcome of the \<^verbatim>\<open>HEAD\<close> request (\<open>Some ms\<close>: it resolved and \<^verbatim>\<open>Date.now()\<close>
  advanced by \<open>ms\<close> meanwhile; \<open>None\<close>: it rejected or hit the 10 s timeout), and the
  clock at the time the report is built.
\<close>

record env =
  randoms :: "nat \<Rightarrow> rat"
  head_request :: "string \<Rightarrow> nat option"
  date :: int

datatype json = JNum rat | JStr "piece list"

record message =
  progress :: "int option"
  status :: "string option"
  metrics :: "(string \<times> json) list option"
  results :: "report option"
  error :: "(string \<times> string) option"

text \<open>
  What the handler changes: the number of random values drawn, the chunks enqueued
  on the stream controller, the \<^verbatim>\<open>HEAD\<close> requests issued, and whether the stream is
  closed.  The \<^verbatim>\<open>delay\<close> calls only pass time and are left out.
\<close>

record world =
  draws :: nat
  stream :: "message list"
  requests :: "string list"
  closed :: bool

definition Math_random :: "env \<Rightarrow> world \<Rightarrow> rat \<times> world" where
  "Math_random e w = (randoms e (draws w), w\<lparr>draws := Suc (draws w)\<rparr>)"

definition enqueue :: "message \<Rightarrow> world \<Rightarrow> world" where
  "enqueue m w = w\<lparr>stream := stream w @ [m]\<rparr>"

definition progressMessage :: "int \<Rightarrow> string \<Rightarrow> (string \<times> json) list \<Rightarrow> message" where
  "progressMessage p s m =
    \<lparr>progress = Some p, status = Some s, metrics = Some m, results = None, error = None\<rparr>"

definition metricsMessage :: "(string \<times> json) list \<Rightarrow> message" where
  "metricsMessage m =
    \<lparr>progress = None, status = None, metrics = Some m, results = None, error = None\<rparr>"

definition String_includes :: "string \<Rightarrow> string \<Rightarrow> bool" where
  "String_includes s t = sublist t s"

definition startsWith :: "string \<Rightarrow> string \<Rightarrow> bool" where
  "startsWith s t = prefix t s"

definition simulateLoadTimeTest :: "env \<Rightarrow> string \<Rightarrow> world \<Rightarrow> fixed2 \<times> world" where
  "simulateLoadTimeTest e url w =
    (let isLocalhost =
           (String_includes url ''localhost'' \<or> String_includes url ''127.0.0.1'' \<or>
            String_includes url ''192.168.'' \<or> String_includes url ''10.'')
     in if isLocalhost then
          (let (r, w) = Math_random e w;
               loadTime = toFixed2 (double (double (r * 1) + double (3 / 10)));
               w = enqueue (metricsMessage
                     [(''currentLoadTime'', JStr [Fixed loadTime, Lit ''s'']),
                      (''requestsProcessed'', JNum 3)]) w
           in (loadTime, w))
        else
          (let w = w\<lparr>requests := requests w @ [url]\<rparr>
           in case head_request e url of
                Some ms \<Rightarrow>
                  (let loadTime = toFixed2 (double (of_nat ms / 1000));
                       w = enqueue (metricsMessage
                             [(''currentLoadTime'', JStr [Fixed loadTime, Lit ''s'']),
                              (''requestsProcessed'', JNum 3)]) w
                   in (loadTime, w))
              | None \<Rightarrow>
                  (let (r, w) = Math_random e w;
                       fallbackTime = toFixed2 (double (double (r * 3) + 1));
                       w = enqueue (metricsMessage
                             [(''currentLoadTime'', JStr [Fixed fallbackTime, Lit ''s'']),
                              (''requestsProcessed'', JNum 3)]) w
                   in (fallbackTime, w))))"

definition simulateBrokenLinkCheck :: "env \<Rightarrow> string \<Rightarrow> world \<Rightarrow> string list \<times> world" where
  "simulateBrokenLinkCheck e url w =
    (let possibleBrokenLinks = [''/old-page'', ''/missing-image.jpg'', ''/broken-link'', ''/404-page''];
         w = fold (\<lambda>i. enqueue (metricsMessage
                   [(''requestsProcessed'', JNum (5 + of_nat i * 2))])) [0..<3] w;
         (r, w) = Math_random e w
     in if r > double (7 / 10) then
          (let (r, w) = Math_random e w
           in (take (nat \<lfloor>double (r * 3)\<rfloor>) possibleBrokenLinks, w))
        else ([], w))"

definition simulateMobileTest :: "env \<Rightarrow> string \<Rightarrow> world \<Rightarrow> int \<times> world" where
  "simulateMobileTest e url w =
    (let w = fold (\<lambda>i. enqueue (metricsMessage
                   [(''requestsProcessed'', JNum (12 + of_nat i * 2))])) [0..<4] w;
         (r, w) = Math_random e w
     in (\<lfloor>double (double (r * 30) + 70)\<rfloor>, w))"

definition simulateLoadTest :: "env \<Rightarrow> string \<Rightarrow> int \<Rightarrow> world \<Rightarrow> loadTestResults \<times> world" where
  "simulateLoadTest e url = (\<lambda>concurrent w.
    (let totalRequests = concurrent * 10;
         w = fold (\<lambda>i. (let processed = \<lfloor>(of_nat i + 1) * (rat_of_int totalRequests / 10)\<rfloor>
                         in enqueue (metricsMessage
                              [(''requestsProcessed'', JNum (of_int processed)),
                               (''concurrent'',
                                JNum (of_int \<lfloor>rat_of_int (concurrent * (int i + 1)) / 10\<rfloor>))])))
               [0..<10] w;
         (r1, w) = Math_random e w;
         (r2, w) = Math_random e w;
         (r3, w) = Math_random e w
     in (\<lparr>loadTestResults.totalRequests = totalRequests,
          loadTestResults.failedRequests = \<lfloor>double (r1 * 5)\<rfloor>,
          avgResponseTime = toFixed2 (double (double (r2 * 2) + 1 / 2)),
          maxResponseTime = toFixed2 (double (double (r3 * 5) + 2))\<rparr>, w)))"

record testConfig =
  concurrent :: int
  duration :: int

text \<open>
  The success rate printed in the last progress message.  A division by zero gives
  \<^verbatim>\<open>NaN\<close> or an infinity, which the template prints by name.
\<close>

definition successRateText :: "loadTestResults \<Rightarrow> piece list" where
  "successRateText l =
    (let total = loadTestResults.totalRequests l; failed = loadTestResults.failedRequests l
     in if total = 0 then
          [Lit (if failed = 0 then ''NaN'' else if failed > 0 then ''-Infinity'' else ''Infinity''),
           Lit ''%'']
        else
          [Num (of_int (Math_round
                   (double (double (rat_of_int (total - failed) / rat_of_int total) * 100)))),
           Lit ''%''])"

text \<open>
  \<open>testConfig\<close> comes from the request body: \<open>None\<close> is a body without the field, where
  \<^verbatim>\<open>testConfig.concurrent\<close> throws and the \<^verbatim>\<open>catch\<close> block reports the failure.
\<close>

definition runPerformanceTest :: "env \<Rightarrow> string \<Rightarrow> testConfig option \<Rightarrow> world \<Rightarrow> world" where
  "runPerformanceTest e url testConfig w =
    (let w = enqueue (progressMessage 0 ''Initializing performance test...''
                 [(''currentLoadTime'', JStr [Lit ''0.0s'']), (''requestsProcessed'', JNum 0)]) w;
         w = enqueue (progressMessage 20 ''Measuring page load time...''
                 [(''currentLoadTime'', JStr [Lit ''Loading...'']), (''requestsProcessed'', JNum 1)]) w;
         (loadTime, w) = simulateLoadTimeTest e url w;
         w = enqueue (progressMessage 40 ''Checking for broken links...''
                 [(''currentLoadTime'', JStr [Fixed loadTime, Lit ''s'']),
                  (''requestsProcessed'', JNum 5)]) w;
         (brokenLinks, w) = simulateBrokenLinkCheck e url w;
         w = enqueue (progressMessage 60 ''Testing mobile responsiveness...''
                 [(''currentLoadTime'', JStr [Fixed loadTime, Lit ''s'']),
                  (''requestsProcessed'', JNum 12)]) w;
         (mobileScore, w) = simulateMobileTest e url w;
         w = enqueue (progressMessage 80 ''Running concurrent user simulation...''
                 [(''currentLoadTime'', JStr [Fixed loadTime, Lit ''s'']),
                  (''requestsProcessed'', JNum 25)]) w;
         w = (case testConfig of
                None \<Rightarrow>
                  enqueue \<lparr>progress = None, status = None, metrics = None, results = None,
                           error = Some (''Test failed'',
                             ''Cannot read properties of undefined (reading 'concurrent')'')\<rparr> w
              | Some config \<Rightarrow>
                  (let (loadTestResults, w) = simulateLoadTest e url (concurrent config) w;
                       w = enqueue (progressMessage 100 ''Generating report...''
                             [(''currentLoadTime'', JStr [Fixed loadTime, Lit ''s'']),
                              (''requestsProcessed'',
                               JNum (of_int (loadTestResults.totalRequests loadTestResults))),
                              (''successRate'', JStr (successRateText loadTestResults)),
                              (''concurrent'', JNum (of_int (concurrent config)))]) w;
                       results = generateTestResults (date e) url
                           \<lparr>testData.loadTime = loadTime,
                            testData.brokenLinks = brokenLinks,
                            testData.mobileScore = mobileScore,
                            loadTestResults = loadTestResults\<rparr>
                   in enqueue \<lparr>progress = Some 100, status = Some ''Test completed!'',
                               metrics = None, results = Some results, error = None\<rparr> w))
     in w\<lparr>closed := True\<rparr>)"

text \<open>The progress values a stream carries, in order of emission.\<close>

definition progressValues :: "message list \<Rightarrow> int list" where
  "progressValues ms = concat (map (\<lambda>m. case progress m of None \<Rightarrow> [] | Some p \<Rightarrow> [p]) ms)"

section \<open>The client: \<^verbatim>\<open>isValidUrl\<close>, \<^verbatim>\<open>formatUrl\<close> and the start of a run\<close>

subsection \<open>The regular expressions\<close>

text \<open>
  \<^verbatim>\<open>isValidUrl\<close> and \<^verbatim>\<open>formatUrl\<close> each hold a list of four patterns; the two lists
  differ in the end anchor \<^verbatim>\<open>$\<close> only, which \<^verbatim>\<open>isValidUrl\<close> has and \<^verbatim>\<open>formatUrl\<close> has not.
  A pattern is a start anchor, then literal text and \<^verbatim>\<open>\d+\<close> in turn.  Every \<^verbatim>\<open>\d+\<close> is
  followed by a character that is no digit or by the end of the pattern, so taking
  the longest run of digits loses no match.
\<close>

datatype token = Chars string | Digits

definition isDigit :: "char \<Rightarrow> bool" where
  "isDigit c = (c \<in> set ''0123456789'')"

text \<open>The rest of the input after the tokens have matched at its start.\<close>

fun matchTokens :: "token list \<Rightarrow> string \<Rightarrow> string option" where
  "matchTokens [] s = Some s"
| "matchTokens (Chars t # ts) s =
     (if prefix t s then matchTokens ts (drop (length t) s) else None)"
| "matchTokens (Digits # ts) s =
     (if takeWhile isDigit s = [] then None else matchTokens ts (dropWhile isDigit s))"

text \<open>\<^verbatim>\<open>/^...$/.test(s)\<close> and \<^verbatim>\<open>/^.../.test(s)\<close>.\<close>

definition testAnchored :: "token list \<Rightarrow> string \<Rightarrow> bool" where
  "testAnchored p s = (matchTokens p s = Some [])"

definition testAtStart :: "token list \<Rightarrow> string \<Rightarrow> bool" where
  "testAtStart p s = (matchTokens p s \<noteq> None)"

definition localhostPatterns :: "token list list" where
  "localhostPatterns =
    [[Chars ''localhost:'', Digits],
     [Chars ''127.0.0.1:'', Digits],
     [Chars ''192.168.'', Digits, Chars ''.'', Digits, Chars '':'', Digits],
     [Chars ''10.'', Digits, Chars ''.'', Digits, Chars ''.'', Digits, Chars '':'', Digits]]"

text \<open>
  What a regular expression of this shape matches, said without an algorithm:
  \<open>matches ts s rest\<close> holds when the tokens match a prefix of \<open>s\<close> and leave \<open>rest\<close>, a
  \<^verbatim>\<open>\d+\<close> matching any non-empty run of digits.  \<open>separated\<close> is the shape that makes the
  longest run the right choice.
\<close>

inductive matches :: "token list \<Rightarrow> string \<Rightarrow> string \<Rightarrow> bool" where
  matches_Nil: "matches [] s s"
| matches_Chars: "matches ts r rest \<Longrightarrow> matches (Chars t # ts) (t @ r) rest"
| matches_Digits:
    "ds \<noteq> [] \<Longrightarrow> \<forall>d \<in> set ds. isDigit d \<Longrightarrow> matches ts r rest \<Longrightarrow>
     matches (Digits # ts) (ds @ r) rest"

fun separated :: "token list \<Rightarrow> bool" where
  "separated [] = True"
| "separated (Chars t # ts) = separated ts"
| "separated [Digits] = True"
| "separated (Digits # Chars t # ts) = (t \<noteq> [] \<and> \<not> isDigit (hd t) \<and> separated ts)"
| "separated (Digits # Digits # ts) = False"

subsection \<open>The \<^verbatim>\<open>URL\<close> constructor\<close>

text \<open>
  \<^verbatim>\<open>new URL(s)\<close> is the URL parser of the platform, run without a base URL.  Its first
  states are modelled as the URL standard gives them: leading and trailing C0 controls
  and spaces are stripped and tabs and newlines removed; the scheme start state wants
  an ASCII letter; the scheme state collects letters, digits, \<^verbatim>\<open>+\<close>, \<^verbatim>\<open>-\<close> and \<^verbatim>\<open>.\<close> in
  lower case up to the first colon; an input with no scheme fails, there being no
  base.  After the colon, a scheme that is not special and is not followed by a slash
  has an opaque path, and parsing an opaque path, a query and a fragment never fails.
  In the other cases authority, host, port and path are parsed; whether that succeeds
  is the parameter \<open>hier\<close>, given the scheme and the rest of the input.
  The result is the \<^verbatim>\<open>protocol\<close> of the URL, or \<open>None\<close> where the constructor throws.
\<close>

definition isAlpha :: "char \<Rightarrow> bool" where
  "isAlpha c = (c \<in> set ''abcdefghijklmnopqrstuvwxyzABCDEFGHIJKLMNOPQRSTUVWXYZ'')"

definition toLower :: "char \<Rightarrow> char" where
  "toLower c =
    (case map_of (zip ''ABCDEFGHIJKLMNOPQRSTUVWXYZ'' ''abcdefghijklmnopqrstuvwxyz'') c of
       Some l \<Rightarrow> l | None \<Rightarrow> c)"

definition isC0OrSpace :: "char \<Rightarrow> bool" where
  "isC0OrSpace c = ((of_char c :: nat) \<le> 32)"

definition isTabOrNewline :: "char \<Rightarrow> bool" where
  "isTabOrNewline c = ((of_char c :: nat) \<in> {9, 10, 13})"

definition specialScheme :: "string \<Rightarrow> bool" where
  "specialScheme s = (s \<in> set [''ftp'', ''file'', ''http'', ''https'', ''ws'', ''wss''])"

fun schemeState :: "string \<Rightarrow> string \<Rightarrow> (string \<times> string) option" where
  "schemeState buffer [] = None"
| "schemeState buffer (c # cs) =
     (if isAlpha c \<or> isDigit c \<or> c \<in> set ''+-.'' then schemeState (buffer @ [toLower c]) cs
      else if c = CHR 0x3A then Some (buffer, cs)
      else None)"

definition URL_protocol :: "(string \<Rightarrow> string \<Rightarrow> bool) \<Rightarrow> string \<Rightarrow> string option" where
  "URL_protocol hier s =
    (let input = rev (dropWhile isC0OrSpace (rev (dropWhile isC0OrSpace s)));
         input = filter (\<lambda>c. \<not> isTabOrNewline c) input
     in case input of
          [] \<Rightarrow> None
        | c # cs \<Rightarrow>
            if isAlpha c then
              (case schemeState [toLower c] cs of
                 None \<Rightarrow> None
               | Some (scheme, remaining) \<Rightarrow>
                   if specialScheme scheme \<or> startsWith remaining ''/'' then
                     (if hier scheme remaining then Some (scheme @ '':'') else None)
                   else Some (scheme @ '':''))
            else None)"

subsection \<open>Validation and normalisation\<close>

definition isValidUrl :: "(string \<Rightarrow> string \<Rightarrow> bool) \<Rightarrow> string \<Rightarrow> bool" where
  "isValidUrl hier urlString =
    (case URL_protocol hier urlString of
       Some protocol \<Rightarrow> protocol = ''http:'' \<or> protocol = ''https:''
     | None \<Rightarrow> list_ex (\<lambda>pattern. testAnchored pattern urlString) localhostPatterns)"

definition formatUrl :: "string \<Rightarrow> string" where
  "formatUrl inputUrl =
    (if inputUrl = [] then []
     else if startsWith inputUrl ''http://'' \<or> startsWith inputUrl ''https://'' then inputUrl
     else if list_ex (\<lambda>pattern. testAtStart pattern inputUrl) localhostPatterns
          then ''http://'' @ inputUrl
     else ''https://'' @ inputUrl)"



section \<open>Properties of the rounding\<close>

text \<open>
  \<open>exponent\<close> is the exponent of the leading bit: the number lies between that power
  of two and the next.  So the rounded number differs from the exact one by half a
  unit of the last mantissa bit at most; a bound of one part in a million is all that
  the ranges below need.
\<close>

lemma bitLength_upper: "n < 2 ^ bitLength n"
proof (induction n rule: bitLength.induct)
  case (1 n)
  show ?case
  proof (cases "n = 0")
    case True
    then show ?thesis by (simp add: bitLength.simps)
  next
    case False
    with 1 have "n div 2 < 2 ^ bitLength (n div 2)" by simp
    then have "n < 2 * 2 ^ bitLength (n div 2)" by linarith
    with False show ?thesis by (simp add: bitLength.simps [of n])
  qed
qed

lemma bitLength_pos: "0 < n \<Longrightarrow> 0 < bitLength n"
  by (simp add: bitLength.simps [of n])

lemma bitLength_lower: "0 < n \<Longrightarrow> 2 ^ (bitLength n - 1) \<le> n"
proof (induction n rule: bitLength.induct)
  case (1 n)
  then have n: "n \<noteq> 0" by simp
  show ?case
  proof (cases "n div 2 = 0")
    case True
    then have "bitLength n = 1"
      using n by (simp add: bitLength.simps [of n] bitLength.simps [of 0])
    then show ?thesis using n by simp
  next
    case False
    then have pos: "0 < n div 2" by simp
    with 1 n have "2 ^ (bitLength (n div 2) - 1) \<le> n div 2" by simp
    moreover have "(2::nat) ^ bitLength (n div 2) = 2 * 2 ^ (bitLength (n div 2) - 1)"
      using bitLength_pos [OF pos] by (cases "bitLength (n div 2)") simp_all
    ultimately have "2 ^ bitLength (n div 2) \<le> n" by linarith
    then show ?thesis using n by (simp add: bitLength.simps [of n])
  qed
qed

lemma exponent_lower:
  assumes "0 < x"
  shows "2 powi exponent x \<le> x"
proof (cases "1 \<le> x")
  case True
  define n where "n = nat \<lfloor>x\<rfloor>"
  have n: "0 < n" and nx: "rat_of_nat n \<le> x"
    using True unfolding n_def by (simp_all add: le_floor_iff)
  have "exponent x = int (bitLength n - 1)"
    using True bitLength_pos [OF n] by (simp add: exponent_def n_def)
  then have "2 powi exponent x = rat_of_nat (2 ^ (bitLength n - 1))"
    by simp
  also have "\<dots> \<le> rat_of_nat n"
    using bitLength_lower [OF n] by (simp only: of_nat_le_iff)
  finally show ?thesis using nx by simp
next
  case False
  define m where "m = \<lceil>1 / x\<rceil>"
  define k where "k = bitLength (nat (m - 1))"
  from False assms have "1 < 1 / x" by simp
  then have m2: "2 \<le> m" unfolding m_def by linarith
  have "nat (m - 1) < 2 ^ k"
    unfolding k_def by (rule bitLength_upper)
  then have "m - 1 < 2 ^ k"
    using m2 by (simp add: nat_less_iff)
  then have "m \<le> 2 ^ k" by simp
  then have "rat_of_int m \<le> rat_of_int (2 ^ k)"
    by (simp only: of_int_le_iff)
  then have "rat_of_int m \<le> 2 ^ k"
    by simp
  moreover have "1 / x \<le> rat_of_int m"
    unfolding m_def by simp
  ultimately have "1 / x \<le> 2 ^ k" by (rule order_trans [rotated])
  then have "1 / 2 ^ k \<le> x"
    using assms by (simp add: field_simps)
  moreover have "exponent x = - int k"
    using False by (simp add: exponent_def m_def k_def)
  ultimately show ?thesis
    by (simp add: power_int_minus field_simps)
qed

lemma exponent_upper:
  assumes "0 < x"
  shows "x < 2 powi (exponent x + 1)"
proof (cases "1 \<le> x")
  case True
  define n where "n = nat \<lfloor>x\<rfloor>"
  have n: "0 < n" and xn: "x < rat_of_nat n + 1"
    using True unfolding n_def by (simp_all add: le_floor_iff) linarith
  have "exponent x + 1 = int (bitLength n)"
    using True by (simp add: exponent_def n_def)
  then have "2 powi (exponent x + 1) = rat_of_nat (2 ^ bitLength n)"
    by simp
  moreover have "n + 1 \<le> 2 ^ bitLength n"
    using bitLength_upper [of n] by simp
  then have "rat_of_nat (n + 1) \<le> rat_of_nat (2 ^ bitLength n)"
    by (simp only: of_nat_le_iff)
  ultimately show ?thesis
    using xn by simp
next
  case False
  define m where "m = \<lceil>1 / x\<rceil>"
  define k where "k = bitLength (nat (m - 1))"
  from False assms have "1 < 1 / x" by simp
  then have m2: "2 \<le> m" unfolding m_def by linarith
  then have pos: "0 < nat (m - 1)" by simp
  have "2 ^ (k - 1) \<le> nat (m - 1)"
    unfolding k_def using pos by (rule bitLength_lower)
  then have "rat_of_nat (2 ^ (k - 1)) \<le> rat_of_nat (nat (m - 1))"
    by (simp only: of_nat_le_iff)
  moreover have "rat_of_nat (nat (m - 1)) = rat_of_int m - 1"
    using m2 by simp
  moreover have "rat_of_int m - 1 < 1 / x"
    unfolding m_def by linarith
  ultimately have "2 ^ (k - 1) < 1 / x"
    by simp
  then have "x < 1 / 2 ^ (k - 1)"
    using assms by (simp add: field_simps)
  moreover have "0 < k"
    unfolding k_def using pos by (rule bitLength_pos)
  then have "exponent x + 1 = - int (k - 1)"
    using False by (simp add: exponent_def m_def k_def)
  ultimately show ?thesis
    by (simp add: power_int_minus field_simps)
qed

text \<open>The doubles written \<^verbatim>\<open>0.1\<close> and \<^verbatim>\<open>0.3\<close>, and a tie that goes to the even mantissa.\<close>

lemma double_examples:
  "double (1 / 10) = 3602879701896397 / 36028797018963968"
  "double (3 / 10) = 5404319552844595 / 18014398509481984"
  "double (1 / 2) = 1 / 2"
  "double (4503599627370497 / 4503599627370496 + 1 / 9007199254740992) =
     4503599627370498 / 4503599627370496"
  by code_simp+

lemma roundToEven_error: "\<bar>rat_of_int (roundToEven y) - y\<bar> \<le> 1 / 2"
proof -
  have "rat_of_int \<lfloor>y\<rfloor> \<le> y" and "y < rat_of_int \<lfloor>y\<rfloor> + 1"
    by linarith+
  then show ?thesis
    unfolding roundToEven_def Let_def by (auto simp: abs_le_iff)
qed

lemma roundToEven_nonneg: "0 \<le> y \<Longrightarrow> 0 \<le> roundToEven y"
  unfolding roundToEven_def Let_def by (auto simp: zero_le_floor intro: add_nonneg_nonneg)

lemma double_nonneg: "0 \<le> x \<Longrightarrow> 0 \<le> double x"
  by (simp add: double_def Let_def roundToEven_nonneg)

lemma double_near: "\<bar>double x - x\<bar> \<le> \<bar>x\<bar> / 1000000 + 1 / 1000000"
proof (cases "x = 0")
  case True
  then show ?thesis by (simp add: double_def)
next
  case False
  define a where "a = \<bar>x\<bar>"
  define e where "e = max (exponent a - 52) (- 1074)"
  define p where "p = (2::rat) powi e"
  define tiny where "tiny = (2::rat) powi (- 1074)"
  have a: "0 < a" using False by (simp add: a_def)
  have p: "0 < p" by (simp add: p_def)
  have d: "double x = sgn x * (rat_of_int (roundToEven (a / p)) * p)"
    using False by (simp add: double_def Let_def a_def e_def p_def)
  have x: "x = sgn x * a"
    by (simp add: a_def mult_sgn_abs)
  have "double x - x = sgn x * (rat_of_int (roundToEven (a / p)) * p - a)"
    unfolding d by (subst (2) x) (simp add: algebra_simps)
  then have "\<bar>double x - x\<bar> = \<bar>rat_of_int (roundToEven (a / p)) * p - a\<bar>"
    using False by (simp add: abs_mult abs_sgn_eq)
  also have "rat_of_int (roundToEven (a / p)) * p - a = (rat_of_int (roundToEven (a / p)) - a / p) * p"
    using p by (simp add: algebra_simps)
  also have "\<bar>\<dots>\<bar> = \<bar>rat_of_int (roundToEven (a / p)) - a / p\<bar> * p"
    using p by (simp add: abs_mult)
  also have "\<dots> \<le> 1 / 2 * p"
    using roundToEven_error [of "a / p"] p by (intro mult_right_mono) simp_all
  finally have err: "\<bar>double x - x\<bar> \<le> p / 2" by simp
  have "tiny \<le> 2 powi (- 20)"
    unfolding tiny_def by (intro power_int_increasing) simp_all
  also have "(2::rat) powi (- 20) \<le> 1 / 1000000"
    by (simp add: power_int_minus)
  finally have tiny: "tiny \<le> 1 / 1000000" .
  show ?thesis
  proof (cases "- 1074 \<le> exponent a - 52")
    case True
    then have "e = exponent a - 52" by (simp add: e_def)
    then have "p = 2 powi exponent a / 2 ^ 52"
      by (simp add: p_def power_int_diff)
    then have "p \<le> a / 2 ^ 52"
      using exponent_lower [OF a] by (simp add: divide_right_mono)
    also have "\<dots> \<le> a / 1000000"
      using a by (intro divide_left_mono) simp_all
    finally show ?thesis using err a unfolding a_def by linarith
  next
    case False
    then have "e = - 1074" by (simp add: e_def)
    then have "p = tiny" by (simp only: p_def tiny_def)
    then show ?thesis using err tiny by linarith
  qed
qed

section \<open>Properties of the scoring engine\<close>

lemma Math_round_of_int: "Math_round (of_int n) = n"
  unfolding Math_round_def by linarith

lemma push_if:
  "(if c then (a @ x, b @ y) else (a, b)) =
   (a @ (if c then x else []), b @ (if c then y else []))"
  by simp

lemma deduct_if:
  "(if c then (s::int) - a else s - b) = s - (if c then a else b)"
  "(if c then (s::int) - a else s) = s - (if c then a else 0)"
  by simp_all

text \<open>The report as one record: the sequence of assignments of the function unfolded.\<close>

lemma generateTestResults_eq:
  "generateTestResults now url d =
    \<lparr>report_url = url,
     timestamp = now,
     overallScore =
       max 0 (min 100 (100
         - (if parseFloat (testData.loadTime d) > 3 then 20
            else if parseFloat (testData.loadTime d) > 2 then 10
            else if parseFloat (testData.loadTime d) > 1 then 5 else 0)
         - (if testData.mobileScore d < 80 then 15
            else if testData.mobileScore d < 90 then 5 else 0)
         - loadTestResults.failedRequests (testData.loadTestResults d) * 5
         - int (length (testData.brokenLinks d)) * 10)),
     loadTime = testData.loadTime d,
     speedIndex = toFixed2 (double (parseFloat (testData.loadTime d) * double (12 / 10))),
     totalRequests = loadTestResults.totalRequests (testData.loadTestResults d),
     failedRequests = loadTestResults.failedRequests (testData.loadTestResults d),
     mobileScore = testData.mobileScore d,
     brokenLinks = testData.brokenLinks d,
     issues =
       (if parseFloat (testData.loadTime d) > 2 then
          [\<lparr>severity = (if parseFloat (testData.loadTime d) > 4 then high else medium),
            description = [Lit ''Page load time is '', Num (parseFloat (testData.loadTime d)),
                           Lit ''s, which may impact user experience'']\<rparr>] else []) @
       (if testData.mobileScore d < 85 then
          [\<lparr>severity = medium,
            description = [Lit ''Mobile responsiveness could be improved'']\<rparr>] else []) @
       (if length (testData.brokenLinks d) > 0 then
          [\<lparr>severity = high,
            description = [Lit ''Found '', Num (of_nat (length (testData.brokenLinks d))),
                           Lit '' broken links'']\<rparr>] else []) @
       (if loadTestResults.failedRequests (testData.loadTestResults d) > 0 then
          [\<lparr>severity = medium,
            description =
              [Num (of_int (loadTestResults.failedRequests (testData.loadTestResults d))),
               Lit '' requests failed during load testing'']\<rparr>] else []),
     recommendations =
       (if parseFloat (testData.loadTime d) > 2
        then [''Optimize images and enable compression to reduce load times''] else []) @
       (if testData.mobileScore d < 85
        then [''Ensure responsive design works well on all device sizes''] else []) @
       (if length (testData.brokenLinks d) > 0
        then [''Fix broken links to improve user experience and SEO''] else []) @
       (if loadTestResults.failedRequests (testData.loadTestResults d) > 0
        then [''Investigate server stability under load''] else [])\<rparr>"
  unfolding generateTestResults_def
  by (simp only: push_if deduct_if Let_def prod.case Math_round_of_int append_Nil append_assoc)

lemma overallScore_eq:
  "overallScore (generateTestResults now url d) =
     max 0 (min 100 (100
       - (if parseFloat (testData.loadTime d) > 3 then 20
          else if parseFloat (testData.loadTime d) > 2 then 10
          else if parseFloat (testData.loadTime d) > 1 then 5 else 0)
       - (if testData.mobileScore d < 80 then 15
          else if testData.mobileScore d < 90 then 5 else 0)
       - 5 * loadTestResults.failedRequests (testData.loadTestResults d)
       - 10 * int (length (testData.brokenLinks d))))"
  by (simp only: generateTestResults_eq report.select_convs mult.commute)

text \<open>
  C1.  For every metrics bundle the overall score is 100 minus the load-time deduction
  (20 above 3 s, else 10 above 2 s, else 5 above 1 s, else 0), minus the mobile
  deduction (15 below 80, else 5 below 90, else 0), minus 5 for each failed request,
  minus 10 for each broken link, clamped to the interval from 0 to 100 and rounded to
  the nearest integer, which the clamped value already is.  It is never negative: with
  1000 failed requests, or more, it is 0.
\<close>

theorem C1_overallScore:
  "(let clamped =
          max 0 (min 100 (100
            - (if parseFloat (testData.loadTime d) > 3 then 20
               else if parseFloat (testData.loadTime d) > 2 then 10
               else if parseFloat (testData.loadTime d) > 1 then 5 else 0)
            - (if testData.mobileScore d < 80 then 15
               else if testData.mobileScore d < 90 then 5 else 0)
            - 5 * loadTestResults.failedRequests (testData.loadTestResults d)
            - 10 * int (length (testData.brokenLinks d))));
        score = overallScore (generateTestResults now url d)
    in score = Math_round (rat_of_int clamped) \<and> score = clamped \<and> 0 \<le> score \<and> score \<le> 100 \<and>
       (loadTestResults.failedRequests (testData.loadTestResults d) \<ge> 1000 \<longrightarrow> score = 0))"
proof -
  define clamped where "clamped =
          max 0 (min 100 (100
            - (if parseFloat (testData.loadTime d) > 3 then 20
               else if parseFloat (testData.loadTime d) > 2 then 10
               else if parseFloat (testData.loadTime d) > 1 then (5::int) else 0)
            - (if testData.mobileScore d < 80 then 15
               else if testData.mobileScore d < 90 then 5 else 0)
            - 5 * loadTestResults.failedRequests (testData.loadTestResults d)
            - 10 * int (length (testData.brokenLinks d))))"
  have score: "overallScore (generateTestResults now url d) = clamped"
    unfolding clamped_def by (rule overallScore_eq)
  have bounds: "0 \<le> clamped" "clamped \<le> 100"
    unfolding clamped_def by simp_all
  have many: "1000 \<le> loadTestResults.failedRequests (testData.loadTestResults d) \<longrightarrow> clamped = 0"
    unfolding clamped_def by (simp split: if_splits)
  show ?thesis
    unfolding Let_def score Math_round_of_int clamped_def [symmetric]
    using bounds many by simp
qed

theorem C1_overallScore_witness:
  "overallScore (generateTestResults 0 ''https://example.com''
      \<lparr>testData.loadTime = 120, testData.brokenLinks = [], testData.mobileScore = 95,
       loadTestResults = \<lparr>loadTestResults.totalRequests = 1000,
                           loadTestResults.failedRequests = 1000,
                           avgResponseTime = 100, maxResponseTime = 300\<rparr>\<rparr>) = 0"
  using C1_overallScore [of
      "\<lparr>testData.loadTime = 120, testData.brokenLinks = [], testData.mobileScore = 95,
        loadTestResults = \<lparr>loadTestResults.totalRequests = 1000,
                            loadTestResults.failedRequests = 1000,
                            avgResponseTime = 100, maxResponseTime = 300\<rparr>\<rparr>"
      0 "''https://example.com''"]
  by (simp add: Let_def)

text \<open>
  C2.  For load time 4.5, mobile score 65, two failed requests and two broken links the
  report has overall score 35; its issues are exactly four: a high load-time issue, a
  medium mobile issue, a high broken-links issue and a medium failed-requests issue; and
  its recommendations are exactly four strings, the fixed one of each category.
\<close>

theorem C2_example_report:
  "(let r = generateTestResults now url
              \<lparr>testData.loadTime = 450, testData.brokenLinks = [a, b], testData.mobileScore = 65,
               loadTestResults = \<lparr>loadTestResults.totalRequests = n,
                                   loadTestResults.failedRequests = 2,
                                   avgResponseTime = avg, maxResponseTime = mx\<rparr>\<rparr>
    in overallScore r = 35 \<and>
       issues r =
         [\<lparr>severity = high,
           description = [Lit ''Page load time is '', Num (9 / 2),
                          Lit ''s, which may impact user experience'']\<rparr>,
          \<lparr>severity = medium,
           description = [Lit ''Mobile responsiveness could be improved'']\<rparr>,
          \<lparr>severity = high, description = [Lit ''Found '', Num 2, Lit '' broken links'']\<rparr>,
          \<lparr>severity = medium,
           description = [Num 2, Lit '' requests failed during load testing'']\<rparr>] \<and>
       map (\<lambda>i. (issueCategory i, severity i)) (issues r) =
         [(Some LoadTimeIssue, high), (Some MobileIssue, medium),
          (Some BrokenLinksIssue, high), (Some FailedRequestsIssue, medium)] \<and>
       length (issues r) = 4 \<and>
       recommendations r =
         [''Optimize images and enable compression to reduce load times'',
          ''Ensure responsive design works well on all device sizes'',
          ''Fix broken links to improve user experience and SEO'',
          ''Investigate server stability under load''] \<and>
       recommendations r =
         map recommendationFor [LoadTimeIssue, MobileIssue, BrokenLinksIssue, FailedRequestsIssue] \<and>
       length (recommendations r) = 4)"
proof -
  define r where "r = generateTestResults now url
              \<lparr>testData.loadTime = 450, testData.brokenLinks = [a, b], testData.mobileScore = 65,
               loadTestResults = \<lparr>loadTestResults.totalRequests = n,
                                   loadTestResults.failedRequests = 2,
                                   avgResponseTime = avg, maxResponseTime = mx\<rparr>\<rparr>"
  have time: "parseFloat 450 = 9 / 2"
    by code_simp
  have score: "overallScore r = 35"
    unfolding r_def overallScore_eq by (simp add: time)
  have iss: "issues r =
         [\<lparr>severity = high,
           description = [Lit ''Page load time is '', Num (9 / 2),
                          Lit ''s, which may impact user experience'']\<rparr>,
          \<lparr>severity = medium,
           description = [Lit ''Mobile responsiveness could be improved'']\<rparr>,
          \<lparr>severity = high, description = [Lit ''Found '', Num 2, Lit '' broken links'']\<rparr>,
          \<lparr>severity = medium,
           description = [Num 2, Lit '' requests failed during load testing'']\<rparr>]"
    unfolding r_def generateTestResults_eq by (simp add: time)
  have recs: "recommendations r =
         [''Optimize images and enable compression to reduce load times'',
          ''Ensure responsive design works well on all device sizes'',
          ''Fix broken links to improve user experience and SEO'',
          ''Investigate server stability under load'']"
    unfolding r_def generateTestResults_eq by (simp add: time)
  show ?thesis
    unfolding Let_def r_def [symmetric] iss recs score
    by (simp add: issueCategory_def recommendationFor_def)
qed

text \<open>
  C3, as stated: two invocations on the same URL and metrics bundle return identical
  reports.  The function reads the clock for the \<^verbatim>\<open>timestamp\<close> field, so two invocations
  one millisecond apart return different reports.
\<close>

theorem C3_timestamp_counterexample:
  "generateTestResults 0 ''https://example.com''
      \<lparr>testData.loadTime = 120, testData.brokenLinks = [], testData.mobileScore = 95,
       loadTestResults = \<lparr>loadTestResults.totalRequests = 100,
                           loadTestResults.failedRequests = 0,
                           avgResponseTime = 100, maxResponseTime = 300\<rparr>\<rparr>
   \<noteq> generateTestResults 1 ''https://example.com''
      \<lparr>testData.loadTime = 120, testData.brokenLinks = [], testData.mobileScore = 95,
       loadTestResults = \<lparr>loadTestResults.totalRequests = 100,
                           loadTestResults.failedRequests = 0,
                           avgResponseTime = 100, maxResponseTime = 300\<rparr>\<rparr>"
proof
  assume "generateTestResults 0 ''https://example.com''
      \<lparr>testData.loadTime = 120, testData.brokenLinks = [], testData.mobileScore = 95,
       loadTestResults = \<lparr>loadTestResults.totalRequests = 100,
                           loadTestResults.failedRequests = 0,
                           avgResponseTime = 100, maxResponseTime = 300\<rparr>\<rparr>
   = generateTestResults 1 ''https://example.com''
      \<lparr>testData.loadTime = 120, testData.brokenLinks = [], testData.mobileScore = 95,
       loadTestResults = \<lparr>loadTestResults.totalRequests = 100,
                           loadTestResults.failedRequests = 0,
                           avgResponseTime = 100, maxResponseTime = 300\<rparr>\<rparr>"
  then have "timestamp (generateTestResults 0 ''https://example.com''
      \<lparr>testData.loadTime = 120, testData.brokenLinks = [], testData.mobileScore = 95,
       loadTestResults = \<lparr>loadTestResults.totalRequests = 100,
                           loadTestResults.failedRequests = 0,
                           avgResponseTime = 100, maxResponseTime = 300\<rparr>\<rparr>)
   = timestamp (generateTestResults 1 ''https://example.com''
      \<lparr>testData.loadTime = 120, testData.brokenLinks = [], testData.mobileScore = 95,
       loadTestResults = \<lparr>loadTestResults.totalRequests = 100,
                           loadTestResults.failedRequests = 0,
                           avgResponseTime = 100, maxResponseTime = 300\<rparr>\<rparr>)"
    by (rule arg_cong)
  then show False
    by (simp only: generateTestResults_eq report.select_convs)
qed

text \<open>
  C3, amended.  The report is determined by the URL, the metrics bundle and the clock
  reading taken for the timestamp: two invocations on the same URL and bundle agree on
  every field but \<^verbatim>\<open>timestamp\<close>, which is the time of the call.
\<close>

theorem C3_deterministic_but_timestamp:
  "generateTestResults now url d = (generateTestResults now' url d)\<lparr>timestamp := now\<rparr> \<and>
   timestamp (generateTestResults now url d) = now"
  by (simp only: generateTestResults_eq report.update_convs report.select_convs simp_thms)

text \<open>
  C4, as stated: an issue appears for the load-time category if and only if the load
  time incurs a deduction.  A load time of 1.5 s costs 5 points and produces neither an
  issue nor a recommendation.
\<close>

theorem C4_deduction_without_issue_counterexample:
  "parseFloat 150 > 1 \<and>
   overallScore (generateTestResults 0 ''https://example.com''
      \<lparr>testData.loadTime = 150, testData.brokenLinks = [], testData.mobileScore = 95,
       loadTestResults = \<lparr>loadTestResults.totalRequests = 100,
                           loadTestResults.failedRequests = 0,
                           avgResponseTime = 100, maxResponseTime = 300\<rparr>\<rparr>) = 95 \<and>
   issues (generateTestResults 0 ''https://example.com''
      \<lparr>testData.loadTime = 150, testData.brokenLinks = [], testData.mobileScore = 95,
       loadTestResults = \<lparr>loadTestResults.totalRequests = 100,
                           loadTestResults.failedRequests = 0,
                           avgResponseTime = 100, maxResponseTime = 300\<rparr>\<rparr>) = [] \<and>
   recommendations (generateTestResults 0 ''https://example.com''
      \<lparr>testData.loadTime = 150, testData.brokenLinks = [], testData.mobileScore = 95,
       loadTestResults = \<lparr>loadTestResults.totalRequests = 100,
                           loadTestResults.failedRequests = 0,
                           avgResponseTime = 100, maxResponseTime = 300\<rparr>\<rparr>) = []"
proof -
  have time: "parseFloat 150 = 3 / 2"
    by code_simp
  show ?thesis
    unfolding generateTestResults_eq by (simp add: time)
qed

lemma issueCategory_simps:
  "issueCategory \<lparr>severity = s1, description = [Lit ''Page load time is '', Num v,
       Lit ''s, which may impact user experience'']\<rparr> = Some LoadTimeIssue"
  "issueCategory \<lparr>severity = s2, description =
       [Lit ''Mobile responsiveness could be improved'']\<rparr> = Some MobileIssue"
  "issueCategory \<lparr>severity = s3, description = [Lit ''Found '', Num v,
       Lit '' broken links'']\<rparr> = Some BrokenLinksIssue"
  "issueCategory \<lparr>severity = s4, description = [Num v,
       Lit '' requests failed during load testing'']\<rparr> = Some FailedRequestsIssue"
  by (simp_all add: issueCategory_def)

text \<open>
  C4, amended.  The issues of a report are, in this order, one load-time issue if and
  only if the load time exceeds 2 s, one mobile issue if and only if the mobile score
  is below 85, one broken-links issue if and only if there is a broken link, and one
  failed-requests issue if and only if the number of failed requests is positive, and
  nothing else; the recommendations are the fixed strings of the categories that
  fired, one each, in the same order.
\<close>

theorem C4_issues_by_code_thresholds:
  "(let r = generateTestResults now url d;
        fired =
          (if parseFloat (testData.loadTime d) > 2 then [LoadTimeIssue] else []) @
          (if testData.mobileScore d < 85 then [MobileIssue] else []) @
          (if testData.brokenLinks d \<noteq> [] then [BrokenLinksIssue] else []) @
          (if loadTestResults.failedRequests (testData.loadTestResults d) > 0
           then [FailedRequestsIssue] else []);
        count = (\<lambda>c. length (filter (\<lambda>i. issueCategory i = Some c) (issues r)))
    in map issueCategory (issues r) = map Some fired \<and>
       recommendations r = map recommendationFor fired \<and>
       count LoadTimeIssue = (if parseFloat (testData.loadTime d) > 2 then 1 else 0) \<and>
       count MobileIssue = (if testData.mobileScore d < 85 then 1 else 0) \<and>
       count BrokenLinksIssue = (if testData.brokenLinks d \<noteq> [] then 1 else 0) \<and>
       count FailedRequestsIssue =
         (if loadTestResults.failedRequests (testData.loadTestResults d) > 0 then 1 else 0))"
  unfolding Let_def generateTestResults_eq
  apply (simp only: report.select_convs)
  apply (simp add: issueCategory_simps recommendationFor_def)
  done

section \<open>Properties of the event stream\<close>

lemma stream_Math_random [simp]: "stream (snd (Math_random e w)) = stream w"
  by (simp add: Math_random_def)

lemma stream_enqueue [simp]: "stream (enqueue m w) = stream w @ [m]"
  by (simp add: enqueue_def)

lemma progress_metricsMessage [simp]: "progress (metricsMessage m) = None"
  by (simp add: metricsMessage_def)

lemma progress_progressMessage [simp]: "progress (progressMessage p s m) = Some p"
  by (simp add: progressMessage_def)

lemma progress_fold_metrics:
  "map progress (stream (fold (\<lambda>i. enqueue (metricsMessage (g i))) xs w)) =
   map progress (stream w) @ replicate (length xs) None"
  by (induction xs arbitrary: w) (simp_all add: replicate_app_Cons_same)

lemma progress_simulateLoadTimeTest:
  "map progress (stream (snd (simulateLoadTimeTest e url w))) = map progress (stream w) @ [None]"
  by (simp add: simulateLoadTimeTest_def Let_def case_prod_beta split: option.split)

lemma progress_simulateBrokenLinkCheck:
  "map progress (stream (snd (simulateBrokenLinkCheck e url w))) =
   map progress (stream w) @ [None, None, None]"
  by (simp add: simulateBrokenLinkCheck_def Let_def case_prod_beta progress_fold_metrics eval_nat_numeral)

lemma progress_simulateMobileTest:
  "map progress (stream (snd (simulateMobileTest e url w))) =
   map progress (stream w) @ [None, None, None, None]"
  by (simp add: simulateMobileTest_def Let_def case_prod_beta progress_fold_metrics eval_nat_numeral)

lemma progress_simulateLoadTest:
  "map progress (stream (snd (simulateLoadTest e url c w))) =
   map progress (stream w) @ [None, None, None, None, None, None, None, None, None, None]"
  by (simp add: simulateLoadTest_def Let_def case_prod_beta progress_fold_metrics eval_nat_numeral)


lemma progress_runPerformanceTest:
  "map progress (stream (runPerformanceTest e url testConfig w)) =
   map progress (stream w) @
   [Some 0, Some 20, None, Some 40, None, None, None, Some 60, None, None, None, None, Some 80] @
   (case testConfig of
      None \<Rightarrow> [None]
    | Some config \<Rightarrow>
        [None, None, None, None, None, None, None, None, None, None, Some 100, Some 100])"
  by (simp add: runPerformanceTest_def Let_def case_prod_beta progress_simulateLoadTimeTest
      progress_simulateBrokenLinkCheck progress_simulateMobileTest progress_simulateLoadTest
      split: option.split)

lemma last_runPerformanceTest:
  "results (last (stream (runPerformanceTest e url testConfig w))) \<noteq> None \<longleftrightarrow> testConfig \<noteq> None"
  by (simp add: runPerformanceTest_def Let_def case_prod_beta split: option.split)


lemma progressValues_map_progress:
  "progressValues ms = concat (map (\<lambda>p. case p of None \<Rightarrow> [] | Some v \<Rightarrow> [v]) (map progress ms))"
  by (simp add: progressValues_def comp_def)

text \<open>
  C5.  On a fresh stream the progress values of the messages that carry one never
  decrease, whatever the run; and on a successful run, one whose last message carries
  the report, the messages carry the progress values 0, 20, 40, 60, 80, 100, 100 in
  this order, the metric-only messages between them carry none, and the progress of
  the final message is exactly 100.
\<close>

theorem C5_progress_nondecreasing:
  assumes fresh: "stream w = []"
  shows "sorted (progressValues (stream (runPerformanceTest e url testConfig w))) \<and>
    (results (last (stream (runPerformanceTest e url testConfig w))) \<noteq> None \<longrightarrow>
       map progress (stream (runPerformanceTest e url testConfig w)) =
         [Some 0, Some 20, None, Some 40, None, None, None, Some 60, None, None, None, None,
          Some 80, None, None, None, None, None, None, None, None, None, None,
          Some 100, Some 100] \<and>
       progressValues (stream (runPerformanceTest e url testConfig w)) =
         [0, 20, 40, 60, 80, 100, 100] \<and>
       progress (last (stream (runPerformanceTest e url testConfig w))) = Some 100)"
proof (cases testConfig)
  case None
  then show ?thesis
    using fresh last_runPerformanceTest [of e url testConfig w]
    by (simp add: progressValues_map_progress progress_runPerformanceTest)
next
  case (Some config)
  have all: "map progress (stream (runPerformanceTest e url testConfig w)) =
         [Some 0, Some 20, None, Some 40, None, None, None, Some 60, None, None, None, None,
          Some 80, None, None, None, None, None, None, None, None, None, None,
          Some 100, Some 100]"
    using fresh Some by (simp add: progress_runPerformanceTest)
  have nonempty: "stream (runPerformanceTest e url testConfig w) \<noteq> []"
    using all by auto
  have "progress (last (stream (runPerformanceTest e url testConfig w))) =
        last (map progress (stream (runPerformanceTest e url testConfig w)))"
    using nonempty by (simp add: last_map)
  then have final: "progress (last (stream (runPerformanceTest e url testConfig w))) = Some 100"
    unfolding all by simp
  show ?thesis
    using final by (simp add: progressValues_map_progress all)
qed

theorem C5_progress_nondecreasing_witness:
  "progressValues (stream (runPerformanceTest
      \<lparr>randoms = (\<lambda>k. 1 / 2), head_request = (\<lambda>u. Some 2500), date = 0\<rparr>
      ''https://example.com'' (Some \<lparr>concurrent = 10, duration = 30\<rparr>)
      \<lparr>draws = 0, stream = [], requests = [], closed = False\<rparr>)) =
     [0, 20, 40, 60, 80, 100, 100]"
proof -
  have fresh: "stream \<lparr>draws = 0, stream = [], requests = [], closed = False\<rparr> = []"
    by simp
  have finished: "results (last (stream (runPerformanceTest
      \<lparr>randoms = (\<lambda>k. 1 / 2), head_request = (\<lambda>u. Some 2500), date = 0\<rparr>
      ''https://example.com'' (Some \<lparr>concurrent = 10, duration = 30\<rparr>)
      \<lparr>draws = 0, stream = [], requests = [], closed = False\<rparr>))) \<noteq> None"
    by (subst last_runPerformanceTest) simp
  show ?thesis
    using C5_progress_nondecreasing [OF fresh, of
      "\<lparr>randoms = (\<lambda>k. 1 / 2), head_request = (\<lambda>u. Some 2500), date = 0\<rparr>"
      "''https://example.com''" "Some \<lparr>concurrent = 10, duration = 30\<rparr>"] finished
    by blast
qed

section \<open>Properties of the load generator\<close>

lemma batches_length:
  "batches fuel e c d st k rs = Some out \<Longrightarrow>
   \<exists>n. length out = length rs + n * nat c \<and> k + n < k + fuel"
proof (induction fuel arbitrary: k rs)
  case 0
  then show ?case by simp
next
  case (Suc fuel)
  show ?case
  proof (cases "rat_of_int (clock e (Suc k) - st) / 1000 < d")
    case True
    with Suc.prems obtain n where
      "length out = length rs + nat c + n * nat c" "Suc k + n < Suc k + fuel"
      using Suc.IH by (fastforce simp: Let_def)
    then show ?thesis by (intro exI [of _ "Suc n"]) simp
  next
    case False
    with Suc.prems show ?thesis by (intro exI [of _ 0]) simp
  qed
qed

text \<open>The loop ends as soon as a reading of the clock has reached the deadline.\<close>

lemma batches_terminates:
  assumes "\<not> rat_of_int (clock e (Suc (k + n)) - st) / 1000 < d"
  shows "\<exists>out. batches (Suc n) e c d st k rs = Some out"
  using assms
proof (induction n arbitrary: k rs)
  case 0
  then show ?case by simp
next
  case (Suc n)
  then show ?case
    by (cases "rat_of_int (clock e (Suc k) - st) / 1000 < d") (simp_all add: Let_def)
qed

lemma batches_fuel_mono:
  "batches fuel e c d st k rs = Some out \<Longrightarrow> batches (fuel + m) e c d st k rs = Some out"
proof (induction fuel arbitrary: k rs)
  case 0
  then show ?case by simp
next
  case (Suc fuel)
  then show ?case
    by (cases "rat_of_int (clock e (Suc k) - st) / 1000 < d") (simp_all add: Let_def)
qed

lemma foldl_add_sum_list: "foldl (+) (a::rat) xs = a + sum_list xs"
  by (induction xs arbitrary: a) (simp_all add: add.assoc)

lemma successful_successful [simp]: "successful (successful rs) = successful rs"
  by (simp add: successful_def)

lemma loadTimes_successful [simp]: "loadTimes (successful rs) = loadTimes rs"
  by (simp add: loadTimes_def)

lemma length_failed_le: "length (failed rs) \<le> length rs"
  by (simp add: failed_def)

lemma successful_failed_length: "length (successful rs) + length (failed rs) = length rs"
  unfolding successful_def failed_def
  by (induction rs) simp_all

lemma loadTimes_empty: "successful rs = [] \<Longrightarrow> loadTimes rs = []"
  by (simp add: loadTimes_def)


lemma averageLoadTime_analyze:
  "averageLoadTime (analyze rs) =
     (if loadTimes rs = [] then None
      else Some (sum_list (loadTimes rs) / of_nat (length (loadTimes rs))))"
proof (cases "loadTimes rs")
  case Nil
  then show ?thesis by (simp add: analyze_def)
next
  case (Cons t ts)
  then show ?thesis by (simp add: analyze_def foldl_add_sum_list)
qed

text \<open>The run returns once the clock has reached the deadline, given fuel for the tests.\<close>

lemma runLoadTest_returns:
  assumes "\<not> rat_of_int (clock e (Suc n) - clock e 0) / 1000 <
             (case options.duration opts of None \<Rightarrow> 30 | Some d \<Rightarrow> d)"
  shows "\<exists>s. runLoadTest (Suc n + m) e url opts = Some s"
proof -
  obtain out where
    "batches (Suc n) e (case options.concurrent opts of None \<Rightarrow> 10 | Some c \<Rightarrow> c)
       (case options.duration opts of None \<Rightarrow> 30 | Some d \<Rightarrow> d) (clock e 0) 0 [] = Some out"
    using batches_terminates [of e 0 n "clock e 0" _ _ "[]"] assms by auto
  then have "batches (Suc n + m) e
       (case options.concurrent opts of None \<Rightarrow> 10 | Some c \<Rightarrow> c)
       (case options.duration opts of None \<Rightarrow> 30 | Some d \<Rightarrow> d) (clock e 0) 0 [] = Some out"
    by (rule batches_fuel_mono)
  then show ?thesis
    by (simp add: runLoadTest_def recorded_def del: batches.simps)
qed

text \<open>
  What a run that returns reports: the count of the outcomes recorded, failures within
  it, and load-time aggregates that the failed outcomes do not enter.
\<close>

lemma runLoadTest_analysis:
  assumes run: "runLoadTest fuel e url opts = Some s"
  shows "\<exists>rs. recorded fuel e url opts = Some rs \<and>
      summary.totalRequests s = length rs \<and>
      (\<exists>n. length rs =
            n * nat (case options.concurrent opts of None \<Rightarrow> 10 | Some c \<Rightarrow> c)) \<and>
      summary.failedRequests s \<le> summary.totalRequests s \<and>
      averageLoadTime s = averageLoadTime (analyze (successful rs)) \<and>
      maxLoadTime s = maxLoadTime (analyze (successful rs)) \<and>
      (successful rs = [] \<longrightarrow> averageLoadTime s = None \<and> maxLoadTime s = None)"
proof -
  from run obtain rs where rec: "recorded fuel e url opts = Some rs" and s: "s = analyze rs"
    by (auto simp: runLoadTest_def)
  from rec have "\<exists>n. length rs =
      n * nat (case options.concurrent opts of None \<Rightarrow> 10 | Some c \<Rightarrow> c)"
    using batches_length [of fuel e _ _ "clock e 0" 0 "[]" rs]
    by (auto simp: recorded_def)
  moreover have "summary.totalRequests s = length rs"
    by (simp add: s analyze_def)
  moreover have "summary.failedRequests s \<le> summary.totalRequests s"
    by (simp add: s analyze_def length_failed_le)
  moreover have "averageLoadTime s = averageLoadTime (analyze (successful rs))"
    and "maxLoadTime s = maxLoadTime (analyze (successful rs))"
    by (simp_all add: s analyze_def)
  moreover have "successful rs = [] \<longrightarrow> averageLoadTime s = None \<and> maxLoadTime s = None"
    by (simp add: s analyze_def loadTimes_empty)
  ultimately show ?thesis
    using rec by blast
qed

lemma foldl_max_Max: "foldl max (a::rat) xs = Max (set (a # xs))"
proof -
  have "foldl max a xs = fold max xs a"
    by (simp add: foldl_conv_fold max.commute)
  then show ?thesis
    by (simp only: Max.set_eq_fold)
qed

lemma foldl_min_Min: "foldl min (a::rat) xs = Min (set (a # xs))"
proof -
  have "foldl min a xs = fold min xs a"
    by (simp add: foldl_conv_fold min.commute)
  then show ?thesis
    by (simp only: Min.set_eq_fold)
qed

text \<open>The load times that enter the aggregates, read off the recorded outcomes.\<close>

lemma loadTimes_eq:
  "loadTimes rs =
    concat (map (\<lambda>r. case outcome.error r of
                        Some (c # cs) \<Rightarrow> []
                      | _ \<Rightarrow> (case outcome.loadTime r of
                                Some t \<Rightarrow> if t = 0 then [] else [t]
                              | None \<Rightarrow> [])) rs)"
  unfolding loadTimes_def successful_def
  by (induction rs)
    (auto simp: truthyString_def truthyNumber_def split: option.splits list.splits)

lemma aggregates_analyze:
  "averageLoadTime (analyze rs) =
     (if loadTimes rs = [] then None
      else Some (sum_list (loadTimes rs) / of_nat (length (loadTimes rs))))"
  "maxLoadTime (analyze rs) =
     (if loadTimes rs = [] then None else Some (Max (set (loadTimes rs))))"
  "minLoadTime (analyze rs) =
     (if loadTimes rs = [] then None else Some (Min (set (loadTimes rs))))"
proof -
  show "averageLoadTime (analyze rs) =
     (if loadTimes rs = [] then None
      else Some (sum_list (loadTimes rs) / of_nat (length (loadTimes rs))))"
    by (rule averageLoadTime_analyze)
  show "maxLoadTime (analyze rs) =
     (if loadTimes rs = [] then None else Some (Max (set (loadTimes rs))))"
    by (cases "loadTimes rs") (simp_all add: analyze_def foldl_max_Max)
  show "minLoadTime (analyze rs) =
     (if loadTimes rs = [] then None else Some (Min (set (loadTimes rs))))"
    by (cases "loadTimes rs") (simp_all add: analyze_def foldl_min_Min)
qed


lemma failed_eq:
  "failed rs = filter (\<lambda>r. case outcome.error r of Some (c # cs) \<Rightarrow> True | _ \<Rightarrow> False) rs"
  unfolding failed_def
  by (rule filter_cong) (auto simp: truthyString_def split: option.splits list.splits)

text \<open>
  C6.  Every run of \<^verbatim>\<open>runLoadTest\<close> returns once a reading of the clock has reached the
  deadline; and for every run that returns, the reported \<^verbatim>\<open>totalRequests\<close> is the number
  of outcomes recorded across all batches (a whole number of batches of \<^verbatim>\<open>concurrent\<close>
  outcomes each), \<^verbatim>\<open>failedRequests\<close> is the number of the recorded outcomes that carry
  an error message and so at most \<^verbatim>\<open>totalRequests\<close>, and \<^verbatim>\<open>averageLoadTime\<close>,
  \<^verbatim>\<open>maxLoadTime\<close> and \<^verbatim>\<open>minLoadTime\<close> are the mean, the maximum and the minimum of the
  load times of the outcomes without an error message (a load time that is missing or
  zero left out), and null when there is none, as when no outcome is successful; the
  outcomes with an error message do not enter them.
\<close>

theorem C6_runLoadTest_aggregates:
  "(\<not> rat_of_int (clock e (Suc n) - clock e 0) / 1000 <
        (case options.duration opts of None \<Rightarrow> 30 | Some d \<Rightarrow> d) \<longrightarrow>
      (\<exists>s. runLoadTest (Suc n + m) e url opts = Some s)) \<and>
   (\<forall>s. runLoadTest fuel e url opts = Some s \<longrightarrow>
      (\<exists>rs lts. recorded fuel e url opts = Some rs \<and>
         lts = concat (map (\<lambda>r. case outcome.error r of
                                   Some (c # cs) \<Rightarrow> []
                                 | _ \<Rightarrow> (case outcome.loadTime r of
                                           Some t \<Rightarrow> if t = 0 then [] else [t]
                                         | None \<Rightarrow> [])) rs) \<and>
         summary.totalRequests s = length rs \<and>
         (\<exists>k. length rs =
               k * nat (case options.concurrent opts of None \<Rightarrow> 10 | Some c \<Rightarrow> c)) \<and>
         summary.failedRequests s =
           length (filter (\<lambda>r. case outcome.error r of Some (c # cs) \<Rightarrow> True | _ \<Rightarrow> False) rs) \<and>
         summary.failedRequests s \<le> summary.totalRequests s \<and>
         successfulRequests s + summary.failedRequests s = summary.totalRequests s \<and>
         averageLoadTime s =
           (if lts = [] then None else Some (sum_list lts / of_nat (length lts))) \<and>
         maxLoadTime s = (if lts = [] then None else Some (Max (set lts))) \<and>
         minLoadTime s = (if lts = [] then None else Some (Min (set lts))) \<and>
         averageLoadTime s = averageLoadTime (analyze (successful rs)) \<and>
         maxLoadTime s = maxLoadTime (analyze (successful rs)) \<and>
         (successful rs = [] \<longrightarrow> averageLoadTime s = None \<and> maxLoadTime s = None)))"
proof (intro conjI impI allI)
  assume "\<not> rat_of_int (clock e (Suc n) - clock e 0) / 1000 <
        (case options.duration opts of None \<Rightarrow> 30 | Some d \<Rightarrow> d)"
  then show "\<exists>s. runLoadTest (Suc n + m) e url opts = Some s"
    by (rule runLoadTest_returns)
next
  fix s
  assume run: "runLoadTest fuel e url opts = Some s"
  then obtain rs where rec: "recorded fuel e url opts = Some rs" and s: "s = analyze rs"
    by (auto simp: runLoadTest_def)
  define lts where "lts = loadTimes rs"
  have batches: "\<exists>k. length rs =
      k * nat (case options.concurrent opts of None \<Rightarrow> 10 | Some c \<Rightarrow> c)"
    using rec batches_length [of fuel e _ _ "clock e 0" 0 "[]" rs]
    by (auto simp: recorded_def)
  have counts: "summary.totalRequests s = length rs"
    "summary.failedRequests s =
       length (filter (\<lambda>r. case outcome.error r of Some (c # cs) \<Rightarrow> True | _ \<Rightarrow> False) rs)"
    "summary.failedRequests s \<le> summary.totalRequests s"
    "successfulRequests s + summary.failedRequests s = summary.totalRequests s"
    using failed_eq [of rs] successful_failed_length [of rs]
    by (simp_all add: s analyze_def length_failed_le)
  have aggregates: "averageLoadTime s =
           (if lts = [] then None else Some (sum_list lts / of_nat (length lts)))"
    "maxLoadTime s = (if lts = [] then None else Some (Max (set lts)))"
    "minLoadTime s = (if lts = [] then None else Some (Min (set lts)))"
    unfolding s lts_def by (rule aggregates_analyze)+
  have only: "averageLoadTime s = averageLoadTime (analyze (successful rs))"
    "maxLoadTime s = maxLoadTime (analyze (successful rs))"
    "successful rs = [] \<longrightarrow> averageLoadTime s = None \<and> maxLoadTime s = None"
    by (simp_all add: s analyze_def loadTimes_empty)
  from rec batches counts aggregates only loadTimes_eq [of rs, folded lts_def]
  show "\<exists>rs lts. recorded fuel e url opts = Some rs \<and>
         lts = concat (map (\<lambda>r. case outcome.error r of
                                   Some (c # cs) \<Rightarrow> []
                                 | _ \<Rightarrow> (case outcome.loadTime r of
                                           Some t \<Rightarrow> if t = 0 then [] else [t]
                                         | None \<Rightarrow> [])) rs) \<and>
         summary.totalRequests s = length rs \<and>
         (\<exists>k. length rs =
               k * nat (case options.concurrent opts of None \<Rightarrow> 10 | Some c \<Rightarrow> c)) \<and>
         summary.failedRequests s =
           length (filter (\<lambda>r. case outcome.error r of Some (c # cs) \<Rightarrow> True | _ \<Rightarrow> False) rs) \<and>
         summary.failedRequests s \<le> summary.totalRequests s \<and>
         successfulRequests s + summary.failedRequests s = summary.totalRequests s \<and>
         averageLoadTime s =
           (if lts = [] then None else Some (sum_list lts / of_nat (length lts))) \<and>
         maxLoadTime s = (if lts = [] then None else Some (Max (set lts))) \<and>
         minLoadTime s = (if lts = [] then None else Some (Min (set lts))) \<and>
         averageLoadTime s = averageLoadTime (analyze (successful rs)) \<and>
         maxLoadTime s = maxLoadTime (analyze (successful rs)) \<and>
         (successful rs = [] \<longrightarrow> averageLoadTime s = None \<and> maxLoadTime s = None)"
    by blast
qed

theorem C6_runLoadTest_aggregates_witness:
  "runLoadTest 2 \<lparr>clock = (\<lambda>k. int k * 600),
                  navigate = (\<lambda>k i. if i < 3 then Responded 0 (1000 * (rat_of_nat i + 1)) 200
                                     else NavigationError ''net::ERR_TIMED_OUT'')\<rparr>
      ''http://localhost:3000'' \<lparr>options.concurrent = Some 4, options.duration = Some 1\<rparr> =
     Some \<lparr>summary.totalRequests = 4, successfulRequests = 3, summary.failedRequests = 1,
           successRate = Some 75, averageLoadTime = Some 2, minLoadTime = Some 1,
           maxLoadTime = Some 3, errors = [Some ''net::ERR_TIMED_OUT'']\<rparr> \<and>
   (\<exists>rs. recorded 2 \<lparr>clock = (\<lambda>k. int k * 600),
                  navigate = (\<lambda>k i. if i < 3 then Responded 0 (1000 * (rat_of_nat i + 1)) 200
                                     else NavigationError ''net::ERR_TIMED_OUT'')\<rparr>
      ''http://localhost:3000'' \<lparr>options.concurrent = Some 4, options.duration = Some 1\<rparr> =
      Some rs \<and> length rs = 4)"
proof -
  have run: "runLoadTest 2 \<lparr>clock = (\<lambda>k. int k * 600),
                  navigate = (\<lambda>k i. if i < 3 then Responded 0 (1000 * (rat_of_nat i + 1)) 200
                                     else NavigationError ''net::ERR_TIMED_OUT'')\<rparr>
      ''http://localhost:3000'' \<lparr>options.concurrent = Some 4, options.duration = Some 1\<rparr> =
     Some \<lparr>summary.totalRequests = 4, successfulRequests = 3, summary.failedRequests = 1,
           successRate = Some 75, averageLoadTime = Some 2, minLoadTime = Some 1,
           maxLoadTime = Some 3, errors = [Some ''net::ERR_TIMED_OUT'']\<rparr>"
    by (simp add: runLoadTest_def recorded_def analyze_def successful_def failed_def
        loadTimes_def truthyString_def truthyNumber_def eval_nat_numeral upt_rec Let_def)
  have deadline: "\<not> rat_of_int (clock \<lparr>clock = (\<lambda>k. int k * 600),
                  navigate = (\<lambda>k i. if i < 3 then Responded 0 (1000 * (rat_of_nat i + 1)) 200
                                     else NavigationError ''net::ERR_TIMED_OUT'')\<rparr> (Suc 1) -
        clock \<lparr>clock = (\<lambda>k. int k * 600),
                  navigate = (\<lambda>k i. if i < 3 then Responded 0 (1000 * (rat_of_nat i + 1)) 200
                                     else NavigationError ''net::ERR_TIMED_OUT'')\<rparr> 0) / 1000 <
        (case options.duration \<lparr>options.concurrent = Some 4, options.duration = Some 1\<rparr> of
           None \<Rightarrow> 30 | Some d \<Rightarrow> d)"
    by simp
  show ?thesis
    using C6_runLoadTest_aggregates [of
        "\<lparr>clock = (\<lambda>k. int k * 600),
          navigate = (\<lambda>k i. if i < 3 then Responded 0 (1000 * (rat_of_nat i + 1)) 200
                             else NavigationError ''net::ERR_TIMED_OUT'')\<rparr>"
        1 "\<lparr>options.concurrent = Some 4, options.duration = Some 1\<rparr>" 0
        "''http://localhost:3000''" 2] run deadline
    by auto
qed



section \<open>The pattern tests and the regular expressions\<close>

inductive_cases matches_NilE: "matches [] s rest"
inductive_cases matches_CharsE: "matches (Chars t # ts) s rest"
inductive_cases matches_DigitsE: "matches (Digits # ts) s rest"

lemma matchTokens_sound: "matchTokens ts s = Some rest \<Longrightarrow> matches ts s rest"
proof (induction ts s rule: matchTokens.induct)
  case (1 s)
  then show ?case by (simp add: matches_Nil)
next
  case (2 t ts s)
  from "2.prems" have pre: "prefix t s" and m: "matchTokens ts (drop (length t) s) = Some rest"
    by (simp_all split: if_splits)
  from pre have "s = t @ drop (length t) s"
    by (metis append_eq_conv_conj prefix_def)
  moreover have "matches ts (drop (length t) s) rest"
    using "2.IH" pre m by simp
  ultimately show ?case
    by (metis matches_Chars)
next
  case (3 ts s)
  from "3.prems" have ne: "takeWhile isDigit s \<noteq> []"
    and m: "matchTokens ts (dropWhile isDigit s) = Some rest"
    by (simp_all split: if_splits)
  have "matches ts (dropWhile isDigit s) rest"
    using "3.IH" ne m by simp
  with ne have "matches (Digits # ts) (takeWhile isDigit s @ dropWhile isDigit s) rest"
    by (intro matches_Digits) (auto dest: set_takeWhileD)
  then show ?case by simp
qed

lemma digits_split:
  assumes "\<forall>d \<in> set ds. isDigit d" and "r = [] \<or> \<not> isDigit (hd r)"
  shows "takeWhile isDigit (ds @ r) = ds" and "dropWhile isDigit (ds @ r) = r"
proof -
  have "takeWhile isDigit r = []" "dropWhile isDigit r = r"
    using assms(2) by (cases r; simp)+
  then show "takeWhile isDigit (ds @ r) = ds" and "dropWhile isDigit (ds @ r) = r"
    using assms(1) by (simp_all add: takeWhile_append2 dropWhile_append2)
qed

lemma matchTokens_complete:
  "matches ts s rest \<Longrightarrow> separated ts \<Longrightarrow>
   \<exists>r ds. matchTokens ts s = Some r \<and> rest = ds @ r \<and> (\<forall>d \<in> set ds. isDigit d)"
proof (induction rule: matches.induct)
  case (matches_Nil s)
  then show ?case by simp
next
  case (matches_Chars ts r rest t)
  then show ?case by simp
next
  case (matches_Digits ds ts r rest)
  show ?case
  proof (cases ts)
    case Nil
    with matches_Digits.hyps have rest: "rest = r"
      by (auto elim: matches_NilE)
    have "takeWhile isDigit (ds @ r) \<noteq> []"
      using matches_Digits.hyps(1,2) by (cases ds) auto
    moreover have "dropWhile isDigit (ds @ r) = dropWhile isDigit r"
      using matches_Digits.hyps(2) by (simp add: dropWhile_append2)
    moreover have "r = takeWhile isDigit r @ dropWhile isDigit r"
      by simp
    moreover have "\<forall>d \<in> set (takeWhile isDigit r). isDigit d"
      by (auto dest: set_takeWhileD)
    ultimately show ?thesis
      unfolding Nil rest by (metis matchTokens.simps(1,3))
  next
    case (Cons tok ts')
    with matches_Digits.prems obtain t where tok: "tok = Chars t"
      and t: "t \<noteq> []" "\<not> isDigit (hd t)" and sep: "separated ts'"
      by (cases tok) auto
    from matches_Digits.hyps(3) obtain r' where r: "r = t @ r'"
      unfolding Cons tok by (auto elim: matches_CharsE)
    with t have "r = [] \<or> \<not> isDigit (hd r)"
      by (cases t) auto
    then have split: "takeWhile isDigit (ds @ r) = ds" "dropWhile isDigit (ds @ r) = r"
      using digits_split matches_Digits.hyps(2) by blast+
    have "separated ts"
      unfolding Cons tok using sep by simp
    then obtain q qs where "matchTokens ts r = Some q" "rest = qs @ q" "\<forall>d \<in> set qs. isDigit d"
      using matches_Digits.IH by blast
    then show ?thesis
      using matches_Digits.hyps(1) by (simp add: split)
  qed
qed

text \<open>For the patterns of the client the two tests are the tests of the regular expressions.\<close>

lemma testAnchored_matches:
  assumes "separated ts"
  shows "testAnchored ts s \<longleftrightarrow> matches ts s []"
  using matchTokens_sound [of ts s "[]"] matchTokens_complete [OF _ assms, of s "[]"]
  by (auto simp: testAnchored_def)

lemma testAtStart_matches:
  assumes "separated ts"
  shows "testAtStart ts s \<longleftrightarrow> (\<exists>rest. matches ts s rest)"
  using matchTokens_sound [of ts s] matchTokens_complete [OF _ assms, of s]
  by (fastforce simp: testAtStart_def)

lemma localhostPatterns_separated: "\<forall>p \<in> set localhostPatterns. separated p"
  by (simp add: localhostPatterns_def isDigit_def)

section \<open>Properties of the load-time probe and of URL normalisation\<close>

lemma floor_rat_numeral:
  "\<lfloor>numeral a / numeral b :: rat\<rfloor> = numeral a div numeral b"
  using floor_divide_of_int_eq [of "numeral a" "numeral b", where ?'a = rat] by simp

lemma toFixed2_nonneg: "0 \<le> x \<Longrightarrow> toFixed2 x = \<lfloor>x * 100 + 1 / 2\<rfloor>"
  by (simp add: toFixed2_def)

lemma double_near_nonneg:
  assumes "0 \<le> x"
  shows "x - x / 1000000 - 1 / 1000000 \<le> double x"
    and "double x \<le> x + x / 1000000 + 1 / 1000000"
    and "0 \<le> double x"
  using double_near [of x] double_nonneg [OF assms] assms by (simp_all add: abs_le_iff)

lemma toFixed2_between:
  assumes "0 \<le> x" and "rat_of_int lo \<le> x * 100 + 1 / 2" and "x * 100 + 1 / 2 < rat_of_int hi + 1"
  shows "lo \<le> toFixed2 x \<and> toFixed2 x \<le> hi"
  using assms by (simp add: toFixed2_nonneg le_floor_iff floor_le_iff)

lemma local_range:
  assumes "0 \<le> r" and "r < 1"
  shows "30 \<le> toFixed2 (double (double (r * 1) + double (3 / 10))) \<and>
         toFixed2 (double (double (r * 1) + double (3 / 10))) \<le> 130"
proof -
  define a where "a = double (r * 1)"
  define b where "b = double (3 / 10)"
  define s where "s = a + b"
  define v where "v = double s"
  have a: "r - r / 1000000 - 1 / 1000000 \<le> a" "a \<le> r + r / 1000000 + 1 / 1000000" "0 \<le> a"
    unfolding a_def using double_near_nonneg [of "r * 1"] assms by simp_all
  have b: "2999987 / 10000000 \<le> b" "b \<le> 3000013 / 10000000"
    unfolding b_def using double_near_nonneg [of "3 / 10"] by simp_all
  have s: "0 \<le> s" "s = a + b"
    using a b by (simp_all add: s_def)
  have v: "s - s / 1000000 - 1 / 1000000 \<le> v" "v \<le> s + s / 1000000 + 1 / 1000000" "0 \<le> v"
    unfolding v_def using double_near_nonneg [OF s(1)] by simp_all
  have "30 \<le> v * 100 + 1 / 2"
    using a b s v assms by linarith
  moreover have "v * 100 + 1 / 2 < 131"
    using a b s v assms by linarith
  ultimately have "30 \<le> toFixed2 v \<and> toFixed2 v \<le> 130"
    using toFixed2_between [of v 30 130] v(3) by simp
  then show ?thesis
    by (simp only: v_def s_def a_def b_def)
qed

lemma fallback_range:
  assumes "0 \<le> r" and "r < 1"
  shows "100 \<le> toFixed2 (double (double (r * 3) + 1)) \<and>
         toFixed2 (double (double (r * 3) + 1)) \<le> 400"
proof -
  define q where "q = r * 3"
  define a where "a = double q"
  define s where "s = a + 1"
  define v where "v = double s"
  have q: "0 \<le> q" "q < 3"
    using assms by (simp_all add: q_def)
  have a: "q - q / 1000000 - 1 / 1000000 \<le> a" "a \<le> q + q / 1000000 + 1 / 1000000" "0 \<le> a"
    unfolding a_def using double_near_nonneg [OF q(1)] by simp_all
  have s: "0 \<le> s" "s = a + 1"
    using a by (simp_all add: s_def)
  have v: "s - s / 1000000 - 1 / 1000000 \<le> v" "v \<le> s + s / 1000000 + 1 / 1000000" "0 \<le> v"
    unfolding v_def using double_near_nonneg [OF s(1)] by simp_all
  have "100 \<le> v * 100 + 1 / 2"
    using a q s v by linarith
  moreover have "v * 100 + 1 / 2 < 401"
    using a q s v by linarith
  ultimately have "100 \<le> toFixed2 v \<and> toFixed2 v \<le> 400"
    using toFixed2_between [of v 100 400] v(3) by simp
  then show ?thesis
    by (simp only: v_def s_def a_def q_def)
qed

lemma simulateLoadTimeTest_local:
  assumes "String_includes url ''localhost'' \<or> String_includes url ''127.0.0.1'' \<or>
            String_includes url ''192.168.'' \<or> String_includes url ''10.''"
  shows "simulateLoadTimeTest e url w =
    (toFixed2 (double (double (randoms e (draws w) * 1) + double (3 / 10))),
     w\<lparr>draws := Suc (draws w),
       stream := stream w @
         [metricsMessage
            [(''currentLoadTime'',
              JStr [Fixed (toFixed2 (double (double (randoms e (draws w) * 1) + double (3 / 10)))), Lit ''s'']),
             (''requestsProcessed'', JNum 3)]]\<rparr>)"
  using assms by (simp add: simulateLoadTimeTest_def Let_def Math_random_def enqueue_def)

lemma simulateLoadTimeTest_remote:
  assumes "\<not> (String_includes url ''localhost'' \<or> String_includes url ''127.0.0.1'' \<or>
            String_includes url ''192.168.'' \<or> String_includes url ''10.'')"
  shows "simulateLoadTimeTest e url w =
    (case head_request e url of
       Some ms \<Rightarrow>
         (toFixed2 (double (of_nat ms / 1000)),
          w\<lparr>requests := requests w @ [url],
            stream := stream w @
              [metricsMessage
                 [(''currentLoadTime'', JStr [Fixed (toFixed2 (double (of_nat ms / 1000))), Lit ''s'']),
                  (''requestsProcessed'', JNum 3)]]\<rparr>)
     | None \<Rightarrow>
         (toFixed2 (double (double (randoms e (draws w) * 3) + 1)),
          w\<lparr>requests := requests w @ [url],
            draws := Suc (draws w),
            stream := stream w @
              [metricsMessage
                 [(''currentLoadTime'',
                   JStr [Fixed (toFixed2 (double (double (randoms e (draws w) * 3) + 1))), Lit ''s'']),
                  (''requestsProcessed'', JNum 3)]]\<rparr>))"
  using assms
  by (simp add: simulateLoadTimeTest_def Let_def Math_random_def enqueue_def split: option.split)


text \<open>
  C7, as stated: the probe returns \<open>{seconds, degraded}\<close> and a fallback result is
  distinguishable from a real one.  The probe returns the seconds alone.  On the branch
  that issues the \<^verbatim>\<open>HEAD\<close> request, a failed request with the random value 1/2 and a
  request that resolved after 2500 ms both return \<^verbatim>\<open>"2.50"\<close> and enqueue the same
  message.
\<close>

theorem C7_fallback_unmarked_counterexample:
  "fst (simulateLoadTimeTest
          \<lparr>randoms = nth [1 / 2], head_request = map_of [], date = 0\<rparr>
          ''https://example.com''
          \<lparr>draws = 0, stream = [], requests = [], closed = False\<rparr>) = 250 \<and>
   fst (simulateLoadTimeTest
          \<lparr>randoms = nth [1 / 2], head_request = map_of [(''https://example.com'', 2500)],
           date = 0\<rparr>
          ''https://example.com''
          \<lparr>draws = 0, stream = [], requests = [], closed = False\<rparr>) = 250 \<and>
   stream (snd (simulateLoadTimeTest
          \<lparr>randoms = nth [1 / 2], head_request = map_of [], date = 0\<rparr>
          ''https://example.com''
          \<lparr>draws = 0, stream = [], requests = [], closed = False\<rparr>)) =
   stream (snd (simulateLoadTimeTest
          \<lparr>randoms = nth [1 / 2], head_request = map_of [(''https://example.com'', 2500)],
           date = 0\<rparr>
          ''https://example.com''
          \<lparr>draws = 0, stream = [], requests = [], closed = False\<rparr>))"
proof -
  have remote: "\<not> (String_includes ''https://example.com'' ''localhost'' \<or>
      String_includes ''https://example.com'' ''127.0.0.1'' \<or>
      String_includes ''https://example.com'' ''192.168.'' \<or>
      String_includes ''https://example.com'' ''10.'')"
    by (simp add: String_includes_def sublist_code)
  have fallback: "double (3 / 2) = 3 / 2" "double (5 / 2) = 5 / 2"
    by code_simp+
  have printed: "toFixed2 (5 / 2) = 250"
    by code_simp
  show ?thesis
    by (simp add: simulateLoadTimeTest_remote [OF remote] fallback printed)
qed

text \<open>
  C7, amended.  On the branch that issues the \<^verbatim>\<open>HEAD\<close> request, which is taken when the
  URL contains none of \<^verbatim>\<open>localhost\<close>, \<^verbatim>\<open>127.0.0.1\<close>, \<^verbatim>\<open>192.168.\<close> and \<^verbatim>\<open>10.\<close>, the probe
  returns the seconds alone, as a string of two decimals, with no flag: when the
  request times out or fails, what \<^verbatim>\<open>toFixed(2)\<close> prints of the double
  \<^verbatim>\<open>Math.random() * 3 + 1\<close>, which lies between 1.00 and 4.00; on a real measurement,
  what it prints of the double that the elapsed milliseconds divided by 1000 give
  (\<^verbatim>\<open>"1.00"\<close> after 1005 ms).  A fallback that prints as a real measurement does gives
  the same result and the same message.
\<close>

theorem C7_probe_returns_seconds_only:
  assumes remote: "\<not> (String_includes url ''localhost'' \<or> String_includes url ''127.0.0.1'' \<or>
            String_includes url ''192.168.'' \<or> String_includes url ''10.'')"
  shows "(head_request e url = None \<longrightarrow>
            fst (simulateLoadTimeTest e url w) = toFixed2 (double (double (randoms e (draws w) * 3) + 1)) \<and>
            (0 \<le> randoms e (draws w) \<and> randoms e (draws w) < 1 \<longrightarrow>
               100 \<le> fst (simulateLoadTimeTest e url w) \<and>
               fst (simulateLoadTimeTest e url w) \<le> 400)) \<and>
         (\<forall>ms. head_request e url = Some ms \<longrightarrow>
            fst (simulateLoadTimeTest e url w) = toFixed2 (double (of_nat ms / 1000))) \<and>
         (\<forall>e' ms. head_request e url = None \<and> head_request e' url = Some ms \<and>
            toFixed2 (double (double (randoms e (draws w) * 3) + 1)) = toFixed2 (double (of_nat ms / 1000)) \<longrightarrow>
            fst (simulateLoadTimeTest e url w) = fst (simulateLoadTimeTest e' url w) \<and>
            stream (snd (simulateLoadTimeTest e url w)) =
              stream (snd (simulateLoadTimeTest e' url w)))"
  using fallback_range [of "randoms e (draws w)"]
  by (simp add: simulateLoadTimeTest_remote [OF remote])

theorem C7_probe_returns_seconds_only_witness:
  "fst (simulateLoadTimeTest
          \<lparr>randoms = nth [1 / 4], head_request = map_of [], date = 0\<rparr>
          ''https://example.com''
          \<lparr>draws = 0, stream = [], requests = [], closed = False\<rparr>) = 175 \<and>
   fst (simulateLoadTimeTest
          \<lparr>randoms = nth [1 / 4], head_request = map_of [(''https://example.com'', 1005)],
           date = 0\<rparr>
          ''https://example.com''
          \<lparr>draws = 0, stream = [], requests = [], closed = False\<rparr>) = 100"
proof -
  have remote: "\<not> (String_includes ''https://example.com'' ''localhost'' \<or>
      String_includes ''https://example.com'' ''127.0.0.1'' \<or>
      String_includes ''https://example.com'' ''192.168.'' \<or>
      String_includes ''https://example.com'' ''10.'')"
    by (simp add: String_includes_def sublist_code)
  have fallback: "double (3 / 4) = 3 / 4" "double (7 / 4) = 7 / 4"
    by code_simp+
  have printed: "toFixed2 (7 / 4) = 175" "toFixed2 (double (201 / 200)) = 100"
    by code_simp+
  show ?thesis
    using C7_probe_returns_seconds_only [OF remote, of
        "\<lparr>randoms = nth [1 / 4], head_request = map_of [], date = 0\<rparr>"
        "\<lparr>draws = 0, stream = [], requests = [], closed = False\<rparr>"]
      C7_probe_returns_seconds_only [OF remote, of
        "\<lparr>randoms = nth [1 / 4], head_request = map_of [(''https://example.com'', 1005)],
          date = 0\<rparr>"
        "\<lparr>draws = 0, stream = [], requests = [], closed = False\<rparr>"]
    by (simp add: fallback printed)
qed

lemma prefix_imp_includes:
  assumes "prefix (k @ t) s"
  shows "String_includes (p @ s) k"
proof -
  from assms obtain rest where "s = (k @ t) @ rest"
    by (auto simp: prefix_def)
  then have "p @ s = p @ k @ (t @ rest)"
    by simp
  then show ?thesis
    unfolding String_includes_def sublist_def by blast
qed

lemma private_pattern_prefix:
  assumes "list_ex (\<lambda>pattern. testAtStart pattern s) localhostPatterns"
  shows "prefix ''localhost:'' s \<or> prefix ''127.0.0.1:'' s \<or> prefix ''192.168.'' s \<or>
         prefix ''10.'' s"
  using assms
  by (simp add: localhostPatterns_def testAtStart_def split: if_splits)

lemma private_pattern_isLocalhost:
  assumes "list_ex (\<lambda>pattern. testAtStart pattern s) localhostPatterns"
  shows "String_includes (''http://'' @ s) ''localhost'' \<or>
         String_includes (''http://'' @ s) ''127.0.0.1'' \<or>
         String_includes (''http://'' @ s) ''192.168.'' \<or>
         String_includes (''http://'' @ s) ''10.''"
proof -
  have "prefix ''localhost:'' s \<Longrightarrow> String_includes (''http://'' @ s) ''localhost''"
    using prefix_imp_includes [of "''localhost''" "'':''" s "''http://''"] by simp
  moreover have "prefix ''127.0.0.1:'' s \<Longrightarrow> String_includes (''http://'' @ s) ''127.0.0.1''"
    using prefix_imp_includes [of "''127.0.0.1''" "'':''" s "''http://''"] by simp
  moreover have "prefix ''192.168.'' s \<Longrightarrow> String_includes (''http://'' @ s) ''192.168.''"
    using prefix_imp_includes [of "''192.168.''" "[]" s "''http://''"] by simp
  moreover have "prefix ''10.'' s \<Longrightarrow> String_includes (''http://'' @ s) ''10.''"
    using prefix_imp_includes [of "''10.''" "[]" s "''http://''"] by simp
  ultimately show ?thesis
    using private_pattern_prefix [OF assms] by blast
qed

text \<open>
  C9, as stated: every bare input that matches no private pattern gets \<^verbatim>\<open>https://\<close> in
  front, and the local branch returns a value in the half-open range from 0.3 to 1.3.
  The empty input is returned as it is; and with the random value 0.999 the local
  branch returns \<^verbatim>\<open>"1.30"\<close>, since \<^verbatim>\<open>toFixed(2)\<close> rounds 1.299 up.
\<close>

theorem C9_empty_input_and_range_counterexample:
  "formatUrl [] = [] \<and> formatUrl [] \<noteq> ''https://'' @ [] \<and>
   fst (simulateLoadTimeTest
          \<lparr>randoms = nth [999 / 1000], head_request = map_of [], date = 0\<rparr>
          (formatUrl ''localhost:3000'')
          \<lparr>draws = 0, stream = [], requests = [], closed = False\<rparr>) = 130 \<and>
   \<not> parseFloat 130 < 13 / 10"
proof -
  have url: "formatUrl ''localhost:3000'' = ''http://localhost:3000''"
    by (simp add: formatUrl_def startsWith_def localhostPatterns_def testAtStart_def isDigit_def)
  have local: "String_includes ''http://localhost:3000'' ''localhost'' \<or>
      String_includes ''http://localhost:3000'' ''127.0.0.1'' \<or>
      String_includes ''http://localhost:3000'' ''192.168.'' \<or>
      String_includes ''http://localhost:3000'' ''10.''"
    by (simp add: String_includes_def sublist_code)
  have drawn: "double (999 / 1000) = 8998192055486251 / 9007199254740992"
    and offset: "double (3 / 10) = 5404319552844595 / 18014398509481984"
    and total: "double (23400703663817097 / 18014398509481984) =
      2925087957977137 / 2251799813685248"
    by code_simp+
  have printed: "toFixed2 (2925087957977137 / 2251799813685248) = 130"
    by code_simp
  have parsed: "parseFloat 130 = 5854679515581645 / 4503599627370496"
    by code_simp
  show ?thesis
    unfolding url
    by (simp add: simulateLoadTimeTest_local [OF local] formatUrl_def drawn offset total
        printed parsed)
qed

text \<open>
  C9, amended.  \<^verbatim>\<open>formatUrl\<close> returns the empty input as it is, leaves an input that
  starts with \<^verbatim>\<open>http://\<close> or \<^verbatim>\<open>https://\<close> unchanged, puts \<^verbatim>\<open>http://\<close> in front of every
  other input that begins with one of the private host:port patterns (so
  \<^verbatim>\<open>localhost:3000\<close> becomes \<^verbatim>\<open>http://localhost:3000\<close>), and \<^verbatim>\<open>https://\<close> in front of every
  other non-empty input.  On the normalised private-host URL the probe takes the local
  branch: it issues no \<^verbatim>\<open>HEAD\<close> request and returns what \<^verbatim>\<open>toFixed(2)\<close> prints of the
  double \<^verbatim>\<open>Math.random() * 1 + 0.3\<close> (\<^verbatim>\<open>"0.42"\<close> for the random value 0.125), which lies
  between 0.30 and 1.30, both included.
\<close>

theorem C9_formatUrl_and_local_probe:
  "formatUrl [] = [] \<and>
   formatUrl ''localhost:3000'' = ''http://localhost:3000'' \<and>
   (startsWith s ''http://'' \<or> startsWith s ''https://'' \<longrightarrow> formatUrl s = s) \<and>
   (\<not> startsWith s ''http://'' \<and> \<not> startsWith s ''https://'' \<and>
    list_ex (\<lambda>pattern. testAtStart pattern s) localhostPatterns \<longrightarrow>
      formatUrl s = ''http://'' @ s \<and>
      fst (simulateLoadTimeTest e (formatUrl s) w) = toFixed2 (double (double (randoms e (draws w) * 1) + double (3 / 10))) \<and>
      requests (snd (simulateLoadTimeTest e (formatUrl s) w)) = requests w \<and>
      (0 \<le> randoms e (draws w) \<and> randoms e (draws w) < 1 \<longrightarrow>
         30 \<le> fst (simulateLoadTimeTest e (formatUrl s) w) \<and>
         fst (simulateLoadTimeTest e (formatUrl s) w) \<le> 130)) \<and>
   (s \<noteq> [] \<and> \<not> startsWith s ''http://'' \<and> \<not> startsWith s ''https://'' \<and>
    \<not> list_ex (\<lambda>pattern. testAtStart pattern s) localhostPatterns \<longrightarrow>
      formatUrl s = ''https://'' @ s)"
proof -
  have empty: "formatUrl [] = []"
    by (simp add: formatUrl_def)
  have example: "formatUrl ''localhost:3000'' = ''http://localhost:3000''"
    by (simp add: formatUrl_def startsWith_def localhostPatterns_def testAtStart_def isDigit_def)
  have full: "startsWith s ''http://'' \<or> startsWith s ''https://'' \<longrightarrow> formatUrl s = s"
    by (auto simp: formatUrl_def startsWith_def)
  have other: "s \<noteq> [] \<and> \<not> startsWith s ''http://'' \<and> \<not> startsWith s ''https://'' \<and>
      \<not> list_ex (\<lambda>pattern. testAtStart pattern s) localhostPatterns \<longrightarrow>
      formatUrl s = ''https://'' @ s"
    by (simp add: formatUrl_def)
  have priv: "formatUrl s = ''http://'' @ s \<and>
      fst (simulateLoadTimeTest e (formatUrl s) w) = toFixed2 (double (double (randoms e (draws w) * 1) + double (3 / 10))) \<and>
      requests (snd (simulateLoadTimeTest e (formatUrl s) w)) = requests w \<and>
      (0 \<le> randoms e (draws w) \<and> randoms e (draws w) < 1 \<longrightarrow>
         30 \<le> fst (simulateLoadTimeTest e (formatUrl s) w) \<and>
         fst (simulateLoadTimeTest e (formatUrl s) w) \<le> 130)"
    if bare: "\<not> startsWith s ''http://''" "\<not> startsWith s ''https://''"
      and pat: "list_ex (\<lambda>pattern. testAtStart pattern s) localhostPatterns"
  proof -
    have "s \<noteq> []"
      using private_pattern_prefix [OF pat] by auto
    then have url: "formatUrl s = ''http://'' @ s"
      using bare pat by (simp add: formatUrl_def)
    show ?thesis
      unfolding url simulateLoadTimeTest_local [OF private_pattern_isLocalhost [OF pat]]
      using local_range [of "randoms e (draws w)"]
      by simp
  qed
  from empty example full other priv show ?thesis
    by blast
qed

theorem C9_formatUrl_and_local_probe_witness:
  "formatUrl ''https://example.com'' = ''https://example.com'' \<and>
   formatUrl ''example.com'' = ''https://example.com'' \<and>
   formatUrl ''192.168.1.20:8080'' = ''http://192.168.1.20:8080'' \<and>
   fst (simulateLoadTimeTest
          \<lparr>randoms = nth [1 / 8], head_request = map_of [], date = 0\<rparr>
          (formatUrl ''192.168.1.20:8080'')
          \<lparr>draws = 0, stream = [], requests = [], closed = False\<rparr>) = 42 \<and>
   requests (snd (simulateLoadTimeTest
          \<lparr>randoms = nth [1 / 8], head_request = map_of [], date = 0\<rparr>
          (formatUrl ''192.168.1.20:8080'')
          \<lparr>draws = 0, stream = [], requests = [], closed = False\<rparr>)) = []"
proof -
  have url: "formatUrl ''192.168.1.20:8080'' = ''http://192.168.1.20:8080''"
    by (simp add: formatUrl_def startsWith_def localhostPatterns_def testAtStart_def isDigit_def)
  have drawn: "double (1 / 8) = 1 / 8"
    and offset: "double (3 / 10) = 5404319552844595 / 18014398509481984"
    and total: "double (7656119366529843 / 18014398509481984) =
      7656119366529843 / 18014398509481984"
    by code_simp+
  have printed: "toFixed2 (7656119366529843 / 18014398509481984) = 42"
    by code_simp
  show ?thesis
    using C9_formatUrl_and_local_probe [of "''https://example.com''"]
      C9_formatUrl_and_local_probe [of "''example.com''"]
      C9_formatUrl_and_local_probe [of "''192.168.1.20:8080''"
        "\<lparr>randoms = nth [1 / 8], head_request = map_of [], date = 0\<rparr>"
        "\<lparr>draws = 0, stream = [], requests = [], closed = False\<rparr>"]
    by (simp add: url startsWith_def localhostPatterns_def testAtStart_def isDigit_def
        drawn offset total printed)
qed

section \<open>Properties of URL validation\<close>



lemma digit_plain:
  assumes "isDigit c"
  shows "\<not> isC0OrSpace c" and "\<not> isTabOrNewline c" and "\<not> isAlpha c" and "c \<noteq> CHR ''/''"
proof -
  from assms have "c = CHR ''0'' \<or> c = CHR ''1'' \<or> c = CHR ''2'' \<or> c = CHR ''3'' \<or> c = CHR ''4'' \<or>
      c = CHR ''5'' \<or> c = CHR ''6'' \<or> c = CHR ''7'' \<or> c = CHR ''8'' \<or> c = CHR ''9''"
    by (simp add: isDigit_def)
  then show "\<not> isC0OrSpace c" and "\<not> isTabOrNewline c" and "\<not> isAlpha c" and "c \<noteq> CHR ''/''"
    by (elim disjE; simp add: isC0OrSpace_def isTabOrNewline_def isAlpha_def)+
qed

text \<open>An input that ends in a digit and begins with a plain character is not stripped.\<close>

lemma strip_plain:
  assumes "\<not> isC0OrSpace c" and "ds \<noteq> []" and "\<forall>d \<in> set ds. isDigit d"
  shows "rev (dropWhile isC0OrSpace (rev (dropWhile isC0OrSpace (c # cs @ ds)))) = c # cs @ ds"
proof -
  from assms(2) obtain d ds' where ds: "ds = ds' @ [d]"
    by (meson rev_exhaust)
  with assms(3) have "\<not> isC0OrSpace d"
    by (simp add: digit_plain(1))
  then have "dropWhile isC0OrSpace (rev (c # cs @ ds)) = rev (c # cs @ ds)"
    by (simp add: ds)
  then show ?thesis
    using assms(1) by simp
qed


lemma matchTokens_Digits_end:
  "matchTokens [Digits] ds = Some [] \<longleftrightarrow> ds \<noteq> [] \<and> (\<forall>d \<in> set ds. isDigit d)"
proof (cases "takeWhile isDigit ds = []")
  case True
  then show ?thesis
    by (cases ds) (auto split: if_splits)
next
  case False
  then have "ds \<noteq> []"
    by auto
  with False show ?thesis
    by (simp add: dropWhile_eq_Nil_conv)
qed

lemma localhost_pattern_iff:
  "testAnchored [Chars ''localhost:'', Digits] s \<longleftrightarrow>
     (\<exists>ds. s = ''localhost:'' @ ds \<and> ds \<noteq> [] \<and> (\<forall>d \<in> set ds. isDigit d))"
proof
  assume "testAnchored [Chars ''localhost:'', Digits] s"
  then have pre: "prefix ''localhost:'' s"
    and rest: "matchTokens [Digits] (drop (length ''localhost:'') s) = Some []"
    unfolding testAnchored_def by (simp_all split: if_splits)
  from pre have "s = ''localhost:'' @ drop (length ''localhost:'') s"
    by (metis append_eq_conv_conj prefix_def)
  with rest show "\<exists>ds. s = ''localhost:'' @ ds \<and> ds \<noteq> [] \<and> (\<forall>d \<in> set ds. isDigit d)"
    unfolding matchTokens_Digits_end by blast
next
  assume "\<exists>ds. s = ''localhost:'' @ ds \<and> ds \<noteq> [] \<and> (\<forall>d \<in> set ds. isDigit d)"
  then obtain ds where s: "s = ''localhost:'' @ ds" and ds: "ds \<noteq> [] \<and> (\<forall>d \<in> set ds. isDigit d)"
    by blast
  have "matchTokens [Digits] ds = Some []"
    using ds matchTokens_Digits_end by blast
  then show "testAnchored [Chars ''localhost:'', Digits] s"
    unfolding testAnchored_def s by simp
qed

text \<open>
  Every string that matches \<^verbatim>\<open>/^localhost:\d+$/\<close> is a URL for the parser, with the scheme
  \<^verbatim>\<open>localhost\<close>: the constructor does not throw, and the pattern is never consulted.
\<close>

lemma localhost_pattern_parses:
  assumes "testAnchored [Chars ''localhost:'', Digits] s"
  shows "URL_protocol hier s = Some ''localhost:''"
proof -
  from assms obtain ds where s: "s = ''localhost:'' @ ds"
    and ne: "ds \<noteq> []" and dig: "\<forall>d \<in> set ds. isDigit d"
    unfolding localhost_pattern_iff by blast
  have strip: "rev (dropWhile isC0OrSpace (rev (dropWhile isC0OrSpace s))) = s"
    unfolding s using strip_plain [of "CHR ''l''" ds "''ocalhost:''"] ne dig
    by (simp add: isC0OrSpace_def)
  have "filter (\<lambda>c. \<not> isTabOrNewline c) ds = ds"
    using dig by (simp add: filter_id_conv digit_plain(2))
  then have keep: "filter (\<lambda>c. \<not> isTabOrNewline c) s = s"
    unfolding s by (simp add: isTabOrNewline_def)
  have scheme: "schemeState [toLower CHR ''l''] (''ocalhost:'' @ ds) = Some (''localhost'', ds)"
    by (simp add: isAlpha_def isDigit_def toLower_def)
  from ne obtain d ds' where "ds = d # ds'"
    by (cases ds) auto
  with dig have "\<not> startsWith ds ''/''"
    using digit_plain(4) [of d] by (auto simp: startsWith_def)
  then show ?thesis
    unfolding URL_protocol_def strip keep Let_def
    using scheme by (simp add: s isAlpha_def specialScheme_def)
qed

lemma localhost_pattern_rejected:
  assumes "testAnchored [Chars ''localhost:'', Digits] s"
  shows "\<not> isValidUrl hier s"
  by (simp add: isValidUrl_def localhost_pattern_parses [OF assms])

text \<open>An input that begins with a digit has no scheme: the constructor throws.\<close>

lemma digit_start_no_url:
  assumes "isDigit c"
  shows "URL_protocol hier (c # rest) = None"
proof -
  have c: "\<not> isC0OrSpace c" "\<not> isTabOrNewline c" "\<not> isAlpha c"
    using assms by (simp_all add: digit_plain)
  have "\<exists>ys. dropWhile isC0OrSpace (rev rest @ [c]) = ys @ [c]"
    using c(1) by (simp add: dropWhile_append)
  then obtain ys where "rev (dropWhile isC0OrSpace (rev (dropWhile isC0OrSpace (c # rest)))) = c # rev ys"
    using c(1) by auto
  then show ?thesis
    unfolding URL_protocol_def Let_def using c(2,3) by simp
qed

lemma testAnchored_Chars: "testAnchored (Chars t # ts) s \<Longrightarrow> prefix t s"
  by (simp add: testAnchored_def split: if_splits)

lemma ip_patterns_accepted:
  assumes "testAnchored [Chars ''127.0.0.1:'', Digits] s \<or>
           testAnchored [Chars ''192.168.'', Digits, Chars ''.'', Digits, Chars '':'', Digits] s \<or>
           testAnchored [Chars ''10.'', Digits, Chars ''.'', Digits, Chars ''.'', Digits,
                         Chars '':'', Digits] s"
  shows "isValidUrl hier s"
proof -
  from assms have "prefix ''127.0.0.1:'' s \<or> prefix ''192.168.'' s \<or> prefix ''10.'' s"
    using testAnchored_Chars by blast
  then obtain rest where s: "s = CHR ''1'' # rest"
    by (cases s) auto
  have "URL_protocol hier s = None"
    unfolding s by (rule digit_start_no_url) (simp add: isDigit_def)
  then show ?thesis
    using assms by (auto simp: isValidUrl_def localhostPatterns_def)
qed










end
